theory Spec2Isabelle
  imports Main "HOL-Library.AList" "HOL-Library.Word"
begin

text \<open>
  A shallow embedding of \<open>src/index.ts\<close> of the HALO Node SDK: \<open>HaloPaymentTools\<close>
  (\<open>consultJudge\<close>, \<open>signPayment\<close>), \<open>HaloAutoHandler\<close> (\<open>autoRecover\<close>, \<open>retry\<close>)
  and \<open>haloSystem\<close> with its proxy. The \<open>async\<close> functions run their statements in
  order, every \<open>await\<close> being a call whose outcome is had before the next statement;
  a function with effects returns the list of its observable steps together with its
  result or the failure it threw.
\<close>

section \<open>JavaScript values\<close>

text \<open>
  The SDK is written against values of TypeScript type \<open>any\<close>: the caught error, the
  payment requirement and every JSON body. They are modelled by one datatype of dynamic
  values: the plain data a thrown error, a header and a JSON body are made of.
  \<^item> \<open>JNum n\<close> is the integer-valued number \<open>n\<close> of magnitude below \<open>10\<^sup>2\<^sup>1\<close>, which
    JavaScript prints in plain decimal digits (status codes, versions, amounts).
  \<^item> \<open>JNumText v t\<close> is any other number, given by the text \<open>t\<close> that
    \<open>Number.prototype.toString\<close> prints for it (\<open>1.5\<close>, \<open>1e+21\<close>, \<open>NaN\<close>, \<open>Infinity\<close>)
    and by its integer value \<open>v\<close> when it has one.
  \<^item> \<open>JStr s\<close> is a string, \<open>s\<close> its text in UTF-8, an unpaired surrogate written as the
    three bytes its code would take (\<open>ED A0..BF 80..BF\<close>).
  \<^item> \<open>JObj\<close> lists the properties of an object in enumeration order. Where the SDK
    serialises or spreads an object (the requirement, a JSON body) these are its own
    enumerable properties; where it only reads properties by name (the caught error)
    they are the properties those reads find.
  \<^item> \<open>JHeaders\<close> is an instance of the Fetch \<open>Headers\<close> class, with its header names in
    lower case; it is the only value with a callable \<open>get\<close> member.
  Functions, symbols, big integers, accessor properties and cyclic references are not
  values of the model.
\<close>

datatype jsval =
    JUndefined
  | JNull
  | JBool bool
  | JNum int
  | JNumText "int option" string
  | JStr string
  | JArr "jsval list"
  | JObj "(string \<times> jsval) list"
  | JHeaders "(string \<times> string) list"

text \<open>Every \<open>throw\<close> of the source, and every exception a built-in raises, is a value.\<close>

datatype failure =
    Thrown jsval            \<comment> \<open>\<open>throw error\<close>: the caught error itself\<close>
  | TypeError               \<comment> \<open>property read on null/undefined, call of a non-function\<close>
  | SyntaxError             \<comment> \<open>\<open>JSON.parse\<close>, \<open>response.json()\<close>, \<open>BigInt(string)\<close>\<close>
  | RangeError              \<comment> \<open>\<open>BigInt\<close> of a number that is no integer\<close>
  | KeyRequired             \<comment> \<open>"privateKey is required for haloSystem"\<close>
  | WalletRejected          \<comment> \<open>the wallet constructor or \<open>signTypedData\<close> threw\<close>
  | ExtractionFailure       \<comment> \<open>"Could not extract payment requirements from 402 error"\<close>
  | JudgeDenied             \<comment> \<open>"Judge denied payment."\<close>
  | NoPrivateKey            \<comment> \<open>"No private key for signing."\<close>
  | RetryFailed string      \<comment> \<open>"Retry failed: " followed by the response body\<close>
  | TransportFailure        \<comment> \<open>\<open>fetch\<close> rejected\<close>

definition bindE :: "failure + 'a \<Rightarrow> ('a \<Rightarrow> failure + 'b) \<Rightarrow> failure + 'b" where
  "bindE m f = (case m of Inl e \<Rightarrow> Inl e | Inr v \<Rightarrow> f v)"

fun truthy :: "jsval \<Rightarrow> bool" where
  "truthy JUndefined = False"
| "truthy JNull = False"
| "truthy (JBool b) = b"
| "truthy (JNum n) = (n \<noteq> 0)"
| "truthy (JNumText v t) = (t \<noteq> ''NaN'')"
| "truthy (JStr s) = (s \<noteq> [])"
| "truthy (JArr xs) = True"
| "truthy (JObj ps) = True"
| "truthy (JHeaders hs) = True"

fun nullish :: "jsval \<Rightarrow> bool" where
  "nullish JUndefined = True"
| "nullish JNull = True"
| "nullish v = False"

text \<open>
  \<open>v.k\<close> for the property names the SDK reads by name (none of them is an index,
  \<open>length\<close> or a member of a built-in prototype): a \<open>TypeError\<close> on null and undefined,
  the own property of an object, undefined on every other value.
\<close>

fun get_prop :: "jsval \<Rightarrow> string \<Rightarrow> failure + jsval" where
  "get_prop JUndefined k = Inl TypeError"
| "get_prop JNull k = Inl TypeError"
| "get_prop (JObj ps) k = Inr (case map_of ps k of Some v \<Rightarrow> v | None \<Rightarrow> JUndefined)"
| "get_prop v k = Inr JUndefined"

text \<open>\<open>v?.k\<close>: undefined when \<open>v\<close> is null or undefined.\<close>

definition opt_prop :: "jsval \<Rightarrow> string \<Rightarrow> failure + jsval" where
  "opt_prop v k = (if nullish v then Inr JUndefined else get_prop v k)"

text \<open>
  JavaScript indexes a string by UTF-16 code unit. \<open>code_units s\<close> lists the units of
  \<open>s\<close>, each as a string of its own: a character of one, two or three bytes is one unit,
  a character of four bytes is a pair of surrogates.
\<close>

definition surrogate :: "nat \<Rightarrow> string" where
  "surrogate u = [CHR 0xED, char_of (128 + (u div 64) mod 64), char_of (128 + u mod 64)]"

definition surrogate_pair :: "string \<Rightarrow> string list" where
  "surrogate_pair bs =
     (let b = (\<lambda>i. if i < length bs then (of_char (bs ! i) :: nat) else 0);
          cp = (b 0 mod 8) * 262144 + (b 1 mod 64) * 4096 + (b 2 mod 64) * 64 + b 3 mod 64 - 65536
      in [surrogate (55296 + cp div 1024), surrogate (56320 + cp mod 1024)])"

fun code_units :: "string \<Rightarrow> string list" where
  "code_units [] = []"
| "code_units (c # cs) =
     (if (of_char c :: nat) < 192 then [c] # code_units cs
      else if (of_char c :: nat) < 224 then (c # take 1 cs) # code_units (drop 1 cs)
      else if (of_char c :: nat) < 240 then (c # take 2 cs) # code_units (drop 2 cs)
      else surrogate_pair (c # take 3 cs) @ code_units (drop 3 cs))"

text \<open>\<open>v[0]\<close>: the first element of an array, the first code unit of a string, the
  property named \<open>0\<close> of an object.\<close>

fun get_first :: "jsval \<Rightarrow> failure + jsval" where
  "get_first JUndefined = Inl TypeError"
| "get_first JNull = Inl TypeError"
| "get_first (JArr xs) = Inr (case xs of [] \<Rightarrow> JUndefined | x # _ \<Rightarrow> x)"
| "get_first (JStr s) = Inr (case code_units s of [] \<Rightarrow> JUndefined | u # _ \<Rightarrow> JStr u)"
| "get_first (JObj ps) = Inr (case map_of ps ''0'' of Some v \<Rightarrow> v | None \<Rightarrow> JUndefined)"
| "get_first v = Inr JUndefined"

definition opt_first :: "jsval \<Rightarrow> failure + jsval" where
  "opt_first v = (if nullish v then Inr JUndefined else get_first v)"

text \<open>\<open>String.prototype.includes\<close>.\<close>

fun str_includes :: "string \<Rightarrow> string \<Rightarrow> bool" where
  "str_includes [] p = (p = [])"
| "str_includes (c # cs) p = (take (length p) (c # cs) = p \<or> str_includes cs p)"

text \<open>
  \<open>m?.includes(p)\<close> with a string \<open>p\<close>: undefined on null and undefined, the substring
  test on a string, the membership test on an array, and a \<open>TypeError\<close> on every other
  value, which has no callable \<open>includes\<close>.
\<close>

fun opt_includes :: "jsval \<Rightarrow> string \<Rightarrow> failure + jsval" where
  "opt_includes JUndefined p = Inr JUndefined"
| "opt_includes JNull p = Inr JUndefined"
| "opt_includes (JStr s) p = Inr (JBool (str_includes s p))"
| "opt_includes (JArr xs) p = Inr (JBool (JStr p \<in> set xs))"
| "opt_includes v p = Inl TypeError"

section \<open>Strings and numbers\<close>

text \<open>
  \<open>String.prototype.trim\<close> and \<open>toUpperCase\<close> follow the Unicode tables and are taken
  from the platform (see \<open>platform\<close> below). On ASCII text they are the two functions
  here: \<open>trim\<close> strips tab, line feed, vertical tab, form feed, carriage return and
  space; \<open>toUpperCase\<close> maps \<open>a\<close> to \<open>z\<close> onto \<open>A\<close> to \<open>Z\<close>.
\<close>

definition is_ws :: "char \<Rightarrow> bool" where
  "is_ws c = (of_char c \<in> {9, 10, 11, 12, 13, 32 :: nat})"

definition ascii_trim :: "string \<Rightarrow> string" where
  "ascii_trim s = rev (dropWhile is_ws (rev (dropWhile is_ws s)))"

definition upper_char :: "char \<Rightarrow> char" where
  "upper_char c = (let n = (of_char c :: nat) in if 97 \<le> n \<and> n \<le> 122 then char_of (n - 32) else c)"

definition ascii_toUpperCase :: "string \<Rightarrow> string" where
  "ascii_toUpperCase s = map upper_char s"

definition is_ascii :: "string \<Rightarrow> bool" where
  "is_ascii s = list_all (\<lambda>c. (of_char c :: nat) < 128) s"

text \<open>Decimal output of numbers and big integers (\<open>toString()\<close>).\<close>

definition digit_char :: "nat \<Rightarrow> char" where
  "digit_char d = char_of (48 + d)"

fun show_nat :: "nat \<Rightarrow> string" where
  "show_nat n = (if n < 10 then [digit_char n] else show_nat (n div 10) @ [digit_char (n mod 10)])"

declare show_nat.simps [simp del]

definition show_int :: "int \<Rightarrow> string" where
  "show_int i = (if i < 0 then CHR ''-'' # show_nat (nat (- i)) else show_nat (nat i))"

fun join_comma :: "string list \<Rightarrow> string" where
  "join_comma [] = []"
| "join_comma [x] = x"
| "join_comma (x # y # ys) = x @ CHR '','' # join_comma (y # ys)"

text \<open>\<open>String(v)\<close>, which \<open>BigInt\<close> applies to arrays and objects.\<close>

fun js_toString :: "jsval \<Rightarrow> string" where
  "js_toString JUndefined = ''undefined''"
| "js_toString JNull = ''null''"
| "js_toString (JBool b) = (if b then ''true'' else ''false'')"
| "js_toString (JNum n) = show_int n"
| "js_toString (JNumText v t) = t"
| "js_toString (JStr s) = s"
| "js_toString (JArr xs) = join_comma (map (\<lambda>x. if nullish x then [] else js_toString x) xs)"
| "js_toString (JObj ps) = ''[object Object]''"
| "js_toString (JHeaders hs) = ''[object Headers]''"

text \<open>
  The integer literals \<open>BigInt\<close> reads from a trimmed string: empty (zero), a
  \<open>0x\<close>/\<open>0o\<close>/\<open>0b\<close> literal, or an optionally signed decimal literal.
\<close>

definition digit_of :: "char \<Rightarrow> nat option" where
  "digit_of c = (let n = (of_char c :: nat) in
     if 48 \<le> n \<and> n \<le> 57 then Some (n - 48)
     else if 97 \<le> n \<and> n \<le> 102 then Some (n - 87)
     else if 65 \<le> n \<and> n \<le> 70 then Some (n - 55)
     else None)"

fun parse_digits :: "nat \<Rightarrow> nat \<Rightarrow> string \<Rightarrow> nat option" where
  "parse_digits b acc [] = Some acc"
| "parse_digits b acc (c # cs) =
     (case digit_of c of
        None \<Rightarrow> None
      | Some d \<Rightarrow> if d < b then parse_digits b (acc * b + d) cs else None)"

definition parse_radix :: "nat \<Rightarrow> string \<Rightarrow> nat option" where
  "parse_radix b s = (if s = [] then None else parse_digits b 0 s)"

fun StringToBigInt :: "string \<Rightarrow> int option" where
  "StringToBigInt [] = Some 0"
| "StringToBigInt (c # cs) =
     (if c = CHR ''0'' \<and> cs \<noteq> [] \<and> hd cs \<in> {CHR ''x'', CHR ''X''} then map_option int (parse_radix 16 (tl cs))
      else if c = CHR ''0'' \<and> cs \<noteq> [] \<and> hd cs \<in> {CHR ''o'', CHR ''O''} then map_option int (parse_radix 8 (tl cs))
      else if c = CHR ''0'' \<and> cs \<noteq> [] \<and> hd cs \<in> {CHR ''b'', CHR ''B''} then map_option int (parse_radix 2 (tl cs))
      else if c = CHR ''-'' then map_option (\<lambda>n. - int n) (parse_radix 10 cs)
      else if c = CHR ''+'' then map_option int (parse_radix 10 cs)
      else map_option int (parse_radix 10 (c # cs)))"

text \<open>\<open>ethers.hexlify\<close>: \<open>0x\<close> and two lower-case hexadecimal digits per byte.\<close>

definition hex_char :: "nat \<Rightarrow> char" where
  "hex_char d = (if d < 10 then char_of (48 + d) else char_of (87 + d))"

definition hex_byte :: "8 word \<Rightarrow> string" where
  "hex_byte b = [hex_char (unat b div 16), hex_char (unat b mod 16)]"

definition hexlify :: "8 word list \<Rightarrow> string" where
  "hexlify bs = ''0x'' @ concat (map hex_byte bs)"

section \<open>Serialisation\<close>

text \<open>\<open>JSON.stringify\<close>: undefined properties are left out, undefined array elements
  become \<open>null\<close>, strings are quoted with the JSON escapes: the quote, the backslash, the
  control characters, and an unpaired surrogate as \<open>\\udxxx\<close>.\<close>

definition json_escape :: "char \<Rightarrow> string" where
  "json_escape c = (let n = (of_char c :: nat) in
     if n = 0x22 then [CHR 0x5C, CHR 0x22]
     else if n = 0x5C then [CHR 0x5C, CHR 0x5C]
     else if n = 8 then [CHR 0x5C, CHR ''b'']
     else if n = 12 then [CHR 0x5C, CHR ''f'']
     else if n = 10 then [CHR 0x5C, CHR ''n'']
     else if n = 13 then [CHR 0x5C, CHR ''r'']
     else if n = 9 then [CHR 0x5C, CHR ''t'']
     else if n < 32 then [CHR 0x5C, CHR ''u'', CHR ''0'', CHR ''0'', hex_char (n div 16), hex_char (n mod 16)]
     else [c])"

definition surrogate_escape :: "char \<Rightarrow> char \<Rightarrow> string" where
  "surrogate_escape a b =
     [CHR 0x5C, CHR ''u'', CHR ''d'', hex_char (8 + ((of_char a :: nat) div 4) mod 8),
      hex_char (((of_char a :: nat) mod 4) * 4 + ((of_char b :: nat) div 16) mod 4),
      hex_char ((of_char b :: nat) mod 16)]"

fun json_escape_text :: "string \<Rightarrow> string" where
  "json_escape_text (c # a # b # cs) =
     (if c = CHR 0xED \<and> 160 \<le> (of_char a :: nat)
      then surrogate_escape a b @ json_escape_text cs
      else json_escape c @ json_escape_text (a # b # cs))"
| "json_escape_text (c # cs) = json_escape c @ json_escape_text cs"
| "json_escape_text [] = []"

definition json_quote :: "string \<Rightarrow> string" where
  "json_quote s = CHR 0x22 # json_escape_text s @ [CHR 0x22]"

fun JSON_stringify :: "jsval \<Rightarrow> string option" where
  "JSON_stringify JUndefined = None"
| "JSON_stringify JNull = Some ''null''"
| "JSON_stringify (JBool b) = Some (if b then ''true'' else ''false'')"
| "JSON_stringify (JNum n) = Some (show_int n)"
| "JSON_stringify (JNumText v t) =
     Some (if t \<in> {''NaN'', ''Infinity'', ''-Infinity''} then ''null'' else t)"
| "JSON_stringify (JStr s) = Some (json_quote s)"
| "JSON_stringify (JArr xs) =
     Some (''['' @ join_comma (map (\<lambda>x. case JSON_stringify x of None \<Rightarrow> ''null'' | Some t \<Rightarrow> t) xs) @ '']'')"
| "JSON_stringify (JObj ps) =
     Some (''{'' @ join_comma (concat (map (\<lambda>kv. case JSON_stringify (snd kv) of
                                                    None \<Rightarrow> []
                                                  | Some t \<Rightarrow> [json_quote (fst kv) @ '':'' @ t]) ps)) @ ''}'')"
| "JSON_stringify (JHeaders hs) = Some ''{}''"

text \<open>\<open>Buffer.from(s).toString("base64")\<close>: the standard alphabet, padded with \<open>=\<close>.\<close>

definition b64_char :: "nat \<Rightarrow> char" where
  "b64_char n = (if n < 26 then char_of (65 + n)
                 else if n < 52 then char_of (71 + n)
                 else if n < 62 then char_of (n - 4)
                 else if n = 62 then CHR ''+'' else CHR ''/'')"

fun base64_encode :: "nat list \<Rightarrow> string" where
  "base64_encode [] = []"
| "base64_encode [a] = [b64_char (a div 4), b64_char ((a mod 4) * 16), CHR ''='', CHR ''='']"
| "base64_encode [a, b] =
     [b64_char (a div 4), b64_char ((a mod 4) * 16 + b div 16), b64_char ((b mod 16) * 4), CHR ''='']"
| "base64_encode (a # b # c # rest) =
     [b64_char (a div 4), b64_char ((a mod 4) * 16 + b div 16),
      b64_char ((b mod 16) * 4 + c div 64), b64_char (c mod 64)] @ base64_encode rest"

definition to_base64 :: "string \<Rightarrow> string" where
  "to_base64 s = base64_encode (map of_char s)"

section \<open>Configuration, collaborators and effects\<close>

text \<open>\<open>HaloConfig\<close> and the environment variables the SDK falls back to. An optional
  string is absent (\<open>None\<close>) or present; the empty string is present and falsy.\<close>

record HaloConfig =
  privateKey :: "string option"
  apiKey :: "string option"
  haloUrl :: "string option"
  rpcUrl :: "string option"

record process_env =
  HALO_API_KEY :: "string option"
  HALO_PROXY_URL :: "string option"
  HALO_WALLET_PRIVATE_KEY :: "string option"

definition DEFAULT_HALO_URL :: string where
  "DEFAULT_HALO_URL = ''https://api.agihalo.com''"

text \<open>\<open>a || b\<close> on optional strings.\<close>

definition or_str :: "string option \<Rightarrow> string option \<Rightarrow> string option" where
  "or_str a b = (case a of Some s \<Rightarrow> if s \<noteq> [] then Some s else b | None \<Rightarrow> b)"

record wallet =
  wallet_address :: string
  wallet_key :: string

record domain =
  domain_name :: jsval
  domain_version :: jsval
  chainId :: int
  verifyingContract :: jsval

record message =
  msg_from :: string
  msg_to :: jsval
  msg_value :: int
  validAfter :: int
  validBefore :: int
  nonce :: string

text \<open>
  The library functions the SDK calls, as parameters: the \<open>ethers\<close> wallet constructor
  (key and RPC URL; \<open>None\<close> when it throws), \<open>wallet.signTypedData\<close> over the fixed
  \<open>TransferWithAuthorization\<close> schema, \<open>Buffer.from(h, 'base64').toString()\<close>,
  \<open>JSON.parse\<close>, \<open>String.prototype.trim\<close> and \<open>String.prototype.toUpperCase\<close>.
\<close>

record platform =
  new_Wallet :: "string \<Rightarrow> string \<Rightarrow> wallet option"
  signTypedData :: "wallet \<Rightarrow> domain \<Rightarrow> message \<Rightarrow> string option"
  base64_text :: "jsval \<Rightarrow> string option"
  JSON_parse :: "string \<Rightarrow> jsval option"
  String_trim :: "string \<Rightarrow> string"
  String_toUpperCase :: "string \<Rightarrow> string"

text \<open>A platform whose two string functions act on ASCII text as ECMAScript prescribes.\<close>

definition ascii_faithful :: "platform \<Rightarrow> bool" where
  "ascii_faithful P =
     (\<forall>s. is_ascii s \<longrightarrow> String_trim P s = ascii_trim s \<and>
                            String_toUpperCase P s = ascii_toUpperCase s)"

text \<open>
  \<open>BigInt(v)\<close>: a \<open>TypeError\<close> on null and undefined; a \<open>RangeError\<close> on a number that is
  no integer; a string, and the text of an array or an object, is trimmed and read as an
  integer literal, and is a \<open>SyntaxError\<close> otherwise.
\<close>

fun BigInt :: "platform \<Rightarrow> jsval \<Rightarrow> failure + int" where
  "BigInt P JUndefined = Inl TypeError"
| "BigInt P JNull = Inl TypeError"
| "BigInt P (JBool b) = Inr (if b then 1 else 0)"
| "BigInt P (JNum n) = Inr n"
| "BigInt P (JNumText v t) = (case v of None \<Rightarrow> Inl RangeError | Some n \<Rightarrow> Inr n)"
| "BigInt P v = (case StringToBigInt (String_trim P (js_toString v)) of
                   None \<Rightarrow> Inl SyntaxError
                 | Some n \<Rightarrow> Inr n)"

text \<open>The two requests the SDK sends: URL, then the judge's context and amount, or the
  \<open>Payment-Signature\<close> header and the body before serialisation.\<close>

datatype request =
    JudgeRequest string jsval jsval
  | RetryRequest string string jsval

record response =
  ok :: bool
  body :: string

text \<open>
  What the outside answers during one call: the network (\<open>None\<close> when \<open>fetch\<close> rejects),
  the two readings of \<open>Date.now()\<close> in milliseconds, and the bytes \<open>randomBytes(32)\<close>
  draws.
\<close>

record world =
  fetch :: "request \<Rightarrow> response option"
  Date_now_1 :: int
  Date_now_2 :: int
  randomBytes :: "8 word list"

text \<open>The observable steps, in program order: console output, requests, signatures.\<close>

datatype event =
    LogErrorCaught jsval jsval      \<comment> \<open>"Error caught. Status: ..., Message: ..."\<close>
  | LogDetected                     \<comment> \<open>"402 Detected! Starting auto-recovery..."\<close>
  | LogHeaderFailed                 \<comment> \<open>"Failed to extract from header"\<close>
  | DumpError jsval                 \<comment> \<open>\<open>console.error("Dump Error Object:", ...)\<close> of the caught error\<close>
  | LogAutoPay                      \<comment> \<open>"Private key provided -> Skipping Judge ..."\<close>
  | LogLifeline jsval jsval         \<comment> \<open>"Rescue Request: context (amount)"\<close>
  | Fetch request                   \<comment> \<open>a call of \<open>fetch\<close>\<close>
  | SignTypedData domain message    \<comment> \<open>a call of \<open>wallet.signTypedData\<close>\<close>
  | LogRetry                        \<comment> \<open>"Retrying with payment proof..."\<close>

type_synonym 'a effect = "event list \<times> (failure + 'a)"

definition thenT :: "'a effect \<Rightarrow> ('a \<Rightarrow> 'b effect) \<Rightarrow> 'b effect" where
  "thenT m f = (case m of
       (ev, Inl e) \<Rightarrow> (ev, Inl e)
     | (ev, Inr v) \<Rightarrow> (case f v of (ev', r) \<Rightarrow> (ev @ ev', r)))"

definition pureT :: "failure + 'a \<Rightarrow> 'a effect" where
  "pureT r = ([], r)"

section \<open>HaloPaymentTools\<close>

record HaloPaymentTools =
  tools_wallet :: "wallet option"
  tools_apiKey :: string
  tools_haloUrl :: string

definition strip_slash :: "string \<Rightarrow> string" where
  "strip_slash s = (if s \<noteq> [] \<and> last s = CHR ''/'' then butlast s else s)"

definition new_HaloPaymentTools :: "platform \<Rightarrow> process_env \<Rightarrow> HaloConfig \<Rightarrow> failure + HaloPaymentTools" where
  "new_HaloPaymentTools P env config =
     bindE (case or_str (privateKey config) None of
              None \<Rightarrow> Inr None
            | Some pk \<Rightarrow>
                (case new_Wallet P pk (case or_str (rpcUrl config) None of
                                         Some u \<Rightarrow> u | None \<Rightarrow> ''https://mainnet.base.org'') of
                   None \<Rightarrow> Inl WalletRejected
                 | Some w \<Rightarrow> Inr (Some w)))
       (\<lambda>w. Inr \<lparr> tools_wallet = w,
                  tools_apiKey = (case or_str (apiKey config) (HALO_API_KEY env) of
                                    Some k \<Rightarrow> k | None \<Rightarrow> []),
                  tools_haloUrl = strip_slash
                    (case or_str (or_str (haloUrl config) (HALO_PROXY_URL env)) (Some DEFAULT_HALO_URL) of
                       Some u \<Rightarrow> u | None \<Rightarrow> []) \<rparr>)"

definition endpoint :: "HaloPaymentTools \<Rightarrow> string" where
  "endpoint T = tools_haloUrl T @ ''/v1beta/models/gemini-3-flash-preview:generateContent?key='' @ tools_apiKey T"

text \<open>\<open>data.candidates?.[0]?.content?.parts?.[0]?.text\<close>\<close>

definition candidate_text :: "jsval \<Rightarrow> failure + jsval" where
  "candidate_text data =
     bindE (get_prop data ''candidates'') (\<lambda>cs.
     bindE (opt_first cs) (\<lambda>c.
     bindE (opt_prop c ''content'') (\<lambda>content.
     bindE (opt_prop content ''parts'') (\<lambda>parts.
     bindE (opt_first parts) (\<lambda>part.
     opt_prop part ''text'')))))"

text \<open>The last line of \<open>consultJudge\<close>: \<open>text?.trim().toUpperCase() || "ERROR"\<close>.\<close>

definition judge_decision :: "platform \<Rightarrow> jsval \<Rightarrow> failure + string" where
  "judge_decision P data =
     bindE (candidate_text data) (\<lambda>t.
       case t of
         JStr s \<Rightarrow> (let d = String_toUpperCase P (String_trim P s) in
                    Inr (if d = [] then ''ERROR'' else d))
       | JUndefined \<Rightarrow> Inr ''ERROR''
       | JNull \<Rightarrow> Inr ''ERROR''
       | _ \<Rightarrow> Inl TypeError)"

definition consultJudge :: "platform \<Rightarrow> world \<Rightarrow> HaloPaymentTools \<Rightarrow> jsval \<Rightarrow> jsval \<Rightarrow> string effect" where
  "consultJudge P W T context amountStr =
     (let req = JudgeRequest (endpoint T) context amountStr in
      ([LogLifeline context amountStr, Fetch req],
       case fetch W req of
         None \<Rightarrow> Inl TransportFailure
       | Some r \<Rightarrow> (case JSON_parse P (body r) of
                      None \<Rightarrow> Inl SyntaxError
                    | Some data \<Rightarrow> judge_decision P data)))"

text \<open>
  \<open>signPayment\<close>. The typed-data domain and message are built from the requirement,
  the two clock readings and the random draw; the envelope is the JSON text of the V2
  payload in base64.
\<close>

definition signing_amount :: "platform \<Rightarrow> jsval \<Rightarrow> failure + int" where
  "signing_amount P requirement =
     bindE (get_prop requirement ''amount'') (\<lambda>a.
     bindE (if truthy a then Inr a else get_prop requirement ''maxAmountRequired'') (BigInt P))"

definition signing_domain :: "jsval \<Rightarrow> failure + domain" where
  "signing_domain requirement =
     bindE (get_prop requirement ''extra'') (\<lambda>extra.
     bindE (opt_prop extra ''name'') (\<lambda>n.
     bindE (opt_prop extra ''version'') (\<lambda>v.
     bindE (get_prop requirement ''asset'') (\<lambda>asset.
       Inr \<lparr> domain_name = (if truthy n then n else JStr ''USD Coin''),
             domain_version = (if truthy v then v else JStr ''2''),
             chainId = 8453,
             verifyingContract = asset \<rparr>))))"

definition signing_message :: "platform \<Rightarrow> world \<Rightarrow> wallet \<Rightarrow> jsval \<Rightarrow> failure + message" where
  "signing_message P W w requirement =
     bindE (signing_amount P requirement) (\<lambda>amount.
     bindE (get_prop requirement ''payTo'') (\<lambda>payTo.
       Inr \<lparr> msg_from = wallet_address w,
             msg_to = payTo,
             msg_value = amount,
             validAfter = Date_now_1 W div 1000 - 60,
             validBefore = Date_now_2 W div 1000 + 3600,
             nonce = hexlify (randomBytes W) \<rparr>))"

definition authorization :: "message \<Rightarrow> jsval" where
  "authorization m = JObj
     [(''from'', JStr (msg_from m)),
      (''to'', msg_to m),
      (''value'', JStr (show_int (msg_value m))),
      (''validAfter'', JStr (show_int (validAfter m))),
      (''validBefore'', JStr (show_int (validBefore m))),
      (''nonce'', JStr (nonce m))]"

definition payloadObj :: "jsval \<Rightarrow> string \<Rightarrow> message \<Rightarrow> jsval" where
  "payloadObj requirement signature m = JObj
     [(''x402Version'', JNum 2),
      (''accepted'', requirement),
      (''payload'', JObj [(''signature'', JStr signature), (''authorization'', authorization m)])]"

text \<open>\<open>obj.payload.authorization[k]\<close>, the field \<open>k\<close> of the authorization an envelope's
  object carries.\<close>

definition payload_field :: "jsval \<Rightarrow> string \<Rightarrow> failure + jsval" where
  "payload_field obj k =
     bindE (get_prop obj ''payload'') (\<lambda>pl.
     bindE (get_prop pl ''authorization'') (\<lambda>au. get_prop au k))"

definition envelope :: "jsval \<Rightarrow> failure + string" where
  "envelope obj = (case JSON_stringify obj of None \<Rightarrow> Inl TypeError | Some t \<Rightarrow> Inr (to_base64 t))"

definition signPayment :: "platform \<Rightarrow> world \<Rightarrow> HaloPaymentTools \<Rightarrow> jsval \<Rightarrow> string effect" where
  "signPayment P W T requirement =
     (case tools_wallet T of
        None \<Rightarrow> ([], Inl NoPrivateKey)
      | Some w \<Rightarrow>
          thenT (pureT (signing_message P W w requirement)) (\<lambda>m.
          thenT (pureT (signing_domain requirement)) (\<lambda>d.
          thenT ([SignTypedData d m],
                 case signTypedData P w d m of None \<Rightarrow> Inl WalletRejected | Some sg \<Rightarrow> Inr sg) (\<lambda>signature.
          pureT (envelope (payloadObj requirement signature m))))))"

definition getApiDetails :: "HaloPaymentTools \<Rightarrow> string \<times> string" where
  "getApiDetails T = (tools_apiKey T, tools_haloUrl T)"

section \<open>HaloAutoHandler\<close>

record HaloAutoHandler =
  tools :: HaloPaymentTools
  autoApprove :: bool

definition new_HaloAutoHandler :: "platform \<Rightarrow> process_env \<Rightarrow> HaloConfig \<Rightarrow> failure + HaloAutoHandler" where
  "new_HaloAutoHandler P env config =
     (let pk = or_str (privateKey config) (HALO_WALLET_PRIVATE_KEY env) in
      bindE (new_HaloPaymentTools P env (config\<lparr>privateKey := pk\<rparr>)) (\<lambda>T.
        Inr \<lparr> tools = T, autoApprove = (or_str pk None \<noteq> None) \<rparr>))"

subsection \<open>Requirement extraction\<close>

text \<open>Strategy A reads the header inside a \<open>try\<close>: whatever is thrown there is logged and
  leaves \<open>reqData\<close> undefined.\<close>

definition headers_get :: "jsval \<Rightarrow> failure + jsval" where
  "headers_get hs =
     (case hs of
        JUndefined \<Rightarrow> Inr JUndefined
      | JNull \<Rightarrow> Inr JUndefined
      | JHeaders l \<Rightarrow> Inr (case map_of l ''payment-required'' of Some v \<Rightarrow> JStr v | None \<Rightarrow> JNull)
      | _ \<Rightarrow> bindE (get_prop hs ''get'') (\<lambda>g. if nullish g then Inr JUndefined else Inl TypeError))"

definition payment_header :: "jsval \<Rightarrow> failure + jsval" where
  "payment_header error =
     bindE (get_prop error ''response'') (\<lambda>resp.
     bindE (opt_prop resp ''headers'') (\<lambda>hs.
     bindE (headers_get hs) (\<lambda>h.
       if truthy h then Inr h else opt_prop hs ''payment-required'')))"

definition strategyA :: "platform \<Rightarrow> jsval \<Rightarrow> event list \<times> jsval" where
  "strategyA P error =
     (case payment_header error of
        Inl e \<Rightarrow> ([LogHeaderFailed], JUndefined)
      | Inr header \<Rightarrow>
          if truthy header then
            (case base64_text P header of
               None \<Rightarrow> ([LogHeaderFailed], JUndefined)
             | Some t \<Rightarrow> (case JSON_parse P t of
                            None \<Rightarrow> ([LogHeaderFailed], JUndefined)
                          | Some v \<Rightarrow> ([], v)))
          else ([], JUndefined))"

text \<open>Strategy B: the first element of \<open>error.errorDetails\<close>, kept when it has a truthy
  \<open>accepts\<close> or \<open>x402Version\<close>, replaced by null otherwise.\<close>

definition strategyB :: "jsval \<Rightarrow> jsval \<Rightarrow> failure + jsval" where
  "strategyB error reqData =
     (if truthy reqData then Inr reqData
      else bindE (get_prop error ''errorDetails'') (\<lambda>details.
        case details of
          JArr (d # ds) \<Rightarrow>
            bindE (get_prop d ''accepts'') (\<lambda>a.
              if truthy a then Inr d
              else bindE (get_prop d ''x402Version'') (\<lambda>x.
                if truthy x then Inr d else Inr JNull))
        | _ \<Rightarrow> Inr reqData))"

text \<open>
  Strategy C: the regular expression \<open>\[(\{.*\})\]\<close> on the message. The search returns
  the leftmost match; the star is greedy, so the group runs to the last \<open>}]\<close> of its line;
  the dot matches no line terminator: line feed, carriage return, U+2028 and U+2029
  (\<open>E2 80 A8\<close> and \<open>E2 80 A9\<close>). \<open>regex_group\<close> is the first capture group of the match.
\<close>

fun line_prefix :: "string \<Rightarrow> string" where
  "line_prefix [] = []"
| "line_prefix (c # cs) =
     (if c = CHR 0x0A \<or> c = CHR 0x0D
         \<or> (c = CHR 0xE2 \<and> (take 2 cs = [CHR 0x80, CHR 0xA8] \<or> take 2 cs = [CHR 0x80, CHR 0xA9]))
      then [] else c # line_prefix cs)"

fun greedy_body :: "string \<Rightarrow> string option" where
  "greedy_body [] = None"
| "greedy_body (c # cs) =
     (case greedy_body cs of
        Some b \<Rightarrow> Some (c # b)
      | None \<Rightarrow> if c = CHR ''}'' \<and> take 1 cs = '']'' then Some [c] else None)"

definition match_here :: "string \<Rightarrow> string option" where
  "match_here s =
     (case s of
        c # d # rest \<Rightarrow>
          if c = CHR ''['' \<and> d = CHR ''{''
          then map_option (\<lambda>b. CHR ''{'' # b)
                 (greedy_body (line_prefix rest))
          else None
      | _ \<Rightarrow> None)"

fun regex_group :: "string \<Rightarrow> string option" where
  "regex_group [] = None"
| "regex_group (c # cs) = (case match_here (c # cs) of Some g \<Rightarrow> Some g | None \<Rightarrow> regex_group cs)"

definition strategyC :: "platform \<Rightarrow> jsval \<Rightarrow> jsval \<Rightarrow> failure + jsval" where
  "strategyC P error reqData =
     (if truthy reqData then Inr reqData
      else bindE (get_prop error ''message'') (\<lambda>m.
        if truthy m then
          (case m of
             JStr s \<Rightarrow>
               (case regex_group s of
                  None \<Rightarrow> Inr reqData
                | Some g \<Rightarrow> if g \<noteq> [] then (case JSON_parse P g of None \<Rightarrow> Inr reqData | Some v \<Rightarrow> Inr v)
                            else Inr reqData)
           | _ \<Rightarrow> Inl TypeError)
        else Inr reqData))"

definition extractRequirements :: "platform \<Rightarrow> jsval \<Rightarrow> jsval effect" where
  "extractRequirements P error =
     (case strategyA P error of
        (ev, r) \<Rightarrow> (ev, bindE (strategyB error r) (strategyC P error)))"

subsection \<open>Retry\<close>

text \<open>
  The object \<open>retry\<close> returns: \<open>{ response: { text: () => ... }, ...json }\<close>. A property
  is a value of the JSON body, or the wrapper object whose \<open>text\<close> closure holds the body.
\<close>

datatype property =
    Native jsval
  | TextWrapper jsval

type_synonym retry_result = "(string \<times> property) list"

text \<open>The own enumerable properties an object spread copies.\<close>

definition spread :: "jsval \<Rightarrow> (string \<times> jsval) list" where
  "spread v =
     (case v of
        JObj ps \<Rightarrow> ps
      | JArr xs \<Rightarrow> zip (map show_nat [0..<length xs]) xs
      | JStr s \<Rightarrow> zip (map show_nat [0..<length (code_units s)]) (map JStr (code_units s))
      | _ \<Rightarrow> [])"

definition reshape :: "jsval \<Rightarrow> retry_result" where
  "reshape json =
     fold (\<lambda>kv. AList.update (fst kv) (Native (snd kv))) (spread json) [(''response'', TextWrapper json)]"

text \<open>Calling the closure: \<open>json.candidates?.[0]?.content?.parts?.[0]?.text || ""\<close>.\<close>

definition text_accessor :: "jsval \<Rightarrow> failure + jsval" where
  "text_accessor json = bindE (candidate_text json) (\<lambda>t. Inr (if truthy t then t else JStr []))"

text \<open>\<open>result.response.text()\<close> on a returned object.\<close>

definition response_text :: "retry_result \<Rightarrow> failure + jsval" where
  "response_text res =
     (case map_of res ''response'' of
        Some (TextWrapper json) \<Rightarrow> text_accessor json
      | _ \<Rightarrow> Inl TypeError)"

definition retry_contents :: "jsval list \<Rightarrow> jsval" where
  "retry_contents args =
     (case args of
        JStr s # _ \<Rightarrow> JObj [(''contents'', JArr [JObj [(''parts'', JArr [JObj [(''text'', JStr s)]])]])]
      | a # _ \<Rightarrow> a
      | [] \<Rightarrow> JUndefined)"

definition retry :: "platform \<Rightarrow> world \<Rightarrow> string \<Rightarrow> jsval list \<Rightarrow> string \<times> string \<Rightarrow> retry_result effect" where
  "retry P W signature args apiDetails =
     (let req = RetryRequest
                  (snd apiDetails @ ''/v1beta/models/gemini-3-flash-preview:generateContent?key='' @ fst apiDetails)
                  signature (retry_contents args) in
      ([LogRetry, Fetch req],
       case fetch W req of
         None \<Rightarrow> Inl TransportFailure
       | Some r \<Rightarrow>
           if \<not> ok r then Inl (RetryFailed (body r))
           else (case JSON_parse P (body r) of
                   None \<Rightarrow> Inl SyntaxError
                 | Some json \<Rightarrow> Inr (reshape json))))"

subsection \<open>autoRecover\<close>

text \<open>The three constants read from the extracted data: \<open>requirement\<close>, \<open>resource\<close> and
  \<open>amountStr\<close>.\<close>

definition requirement_of :: "jsval \<Rightarrow> failure + jsval" where
  "requirement_of reqData =
     bindE (get_prop reqData ''accepts'') (\<lambda>a. if truthy a then get_first a else Inr reqData)"

definition resource_of :: "jsval \<Rightarrow> failure + jsval" where
  "resource_of reqData =
     bindE (get_prop reqData ''resource'') (\<lambda>r. Inr (if truthy r then r else JObj []))"

definition amountStr_of :: "jsval \<Rightarrow> failure + jsval" where
  "amountStr_of requirement =
     bindE (get_prop requirement ''amount'') (\<lambda>a.
       if truthy a then Inr a else get_prop requirement ''maxAmountRequired'')"

text \<open>Step 2: auto-approve, or the judge's decision must include \<open>YES\<close>.\<close>

definition approval :: "platform \<Rightarrow> world \<Rightarrow> HaloAutoHandler \<Rightarrow> jsval \<Rightarrow> jsval \<Rightarrow> unit effect" where
  "approval P W H resource amountStr =
     (if autoApprove H then ([LogAutoPay], Inr ())
      else thenT (pureT (get_prop resource ''description'')) (\<lambda>description.
           thenT (consultJudge P W (tools H) description amountStr) (\<lambda>decision.
             pureT (if \<not> str_includes decision ''YES'' then Inl JudgeDenied else Inr ()))))"

definition autoRecover :: "platform \<Rightarrow> world \<Rightarrow> HaloAutoHandler \<Rightarrow> jsval \<Rightarrow> jsval list \<Rightarrow> retry_result effect" where
  "autoRecover P W H error args =
     thenT (extractRequirements P error) (\<lambda>reqData.
       if \<not> truthy reqData then ([DumpError error], Inl ExtractionFailure)
       else
         thenT (pureT (requirement_of reqData)) (\<lambda>requirement.
         thenT (pureT (resource_of reqData)) (\<lambda>resource.
         thenT (pureT (amountStr_of requirement)) (\<lambda>amountStr.
         thenT (approval P W H resource amountStr) (\<lambda>_.
         thenT (signPayment P W (tools H) requirement) (\<lambda>signature.
           retry P W signature args (getApiDetails (tools H))))))))"

section \<open>haloSystem\<close>

text \<open>
  \<open>haloSystem\<close> builds the handler behind the proxy, or throws. A call through the proxy
  to a method of the wrapped model is \<open>wrapped_method\<close>: its argument \<open>outcome\<close> is what
  the original method did with \<open>args\<close>, a returned value or a thrown error.
\<close>

definition haloSystem :: "platform \<Rightarrow> process_env \<Rightarrow> HaloConfig \<Rightarrow> failure + HaloAutoHandler" where
  "haloSystem P env config =
     (case or_str (or_str (privateKey config) (HALO_WALLET_PRIVATE_KEY env)) None of
        None \<Rightarrow> Inl KeyRequired
      | Some pk \<Rightarrow> new_HaloAutoHandler P env config)"

datatype 'a call_result =
    Returned 'a
  | Recovered retry_result

text \<open>\<open>error.response?.status || error.status || 0\<close>\<close>

definition caught_status :: "jsval \<Rightarrow> failure + jsval" where
  "caught_status error =
     bindE (get_prop error ''response'') (\<lambda>resp.
     bindE (opt_prop resp ''status'') (\<lambda>s.
       if truthy s then Inr s
       else bindE (get_prop error ''status'') (\<lambda>s'. Inr (if truthy s' then s' else JNum 0))))"

text \<open>\<open>status === 402 || error.message?.includes("402") || error.message?.includes("Payment Required")\<close>\<close>

definition is_payment_required :: "jsval \<Rightarrow> jsval \<Rightarrow> failure + bool" where
  "is_payment_required status msg =
     (if status = JNum 402 then Inr True
      else bindE (opt_includes msg ''402'') (\<lambda>i.
        if truthy i then Inr True
        else bindE (opt_includes msg ''Payment Required'') (\<lambda>j. Inr (truthy j))))"

definition wrapped_method ::
  "platform \<Rightarrow> world \<Rightarrow> HaloAutoHandler \<Rightarrow> jsval + 'a \<Rightarrow> jsval list \<Rightarrow> 'a call_result effect" where
  "wrapped_method P W H outcome args =
     (case outcome of
        Inr v \<Rightarrow> ([], Inr (Returned v))
      | Inl error \<Rightarrow>
          thenT (pureT (caught_status error)) (\<lambda>status.
          thenT (pureT (get_prop error ''message'')) (\<lambda>msg.
          thenT ([LogErrorCaught status msg], is_payment_required status msg) (\<lambda>detected.
            if detected
            then thenT ([LogDetected], Inr ()) (\<lambda>_.
                 thenT (autoRecover P W H error args) (\<lambda>res. pureT (Inr (Recovered res))))
            else pureT (Inl (Thrown error))))))"

text \<open>The steps a trace can show, by kind.\<close>

fun is_judge_event :: "event \<Rightarrow> bool" where
  "is_judge_event (LogLifeline c a) = True"
| "is_judge_event (Fetch (JudgeRequest u c a)) = True"
| "is_judge_event e = False"



section \<open>Concrete scenarios\<close>

text \<open>
  Inputs on which the theorems below are exercised: the payment terms of the README's
  quick start, error objects as the Google SDK and a fetch-based client throw them, and
  the replies of the HALO endpoint.
\<close>

definition json_text :: "jsval \<Rightarrow> string" where
  "json_text v = (case JSON_stringify v of Some t \<Rightarrow> t | None \<Rightarrow> [])"

definition usdc_requirement :: jsval where
  "usdc_requirement = JObj [(''amount'', JStr ''1000000''), (''asset'', JStr ''0xUSDC''), (''payTo'', JStr ''0xDest'')]"

definition terms_accepts :: jsval where
  "terms_accepts = JObj [(''accepts'', JArr [usdc_requirement])]"

definition terms_described :: jsval where
  "terms_described = JObj [(''accepts'', JArr [usdc_requirement]),
                           (''resource'', JObj [(''description'', JStr ''physics data'')])]"


definition candidates_reply :: "string \<Rightarrow> jsval" where
  "candidates_reply t = JObj [(''candidates'', JArr [JObj [(''content'', JObj [(''parts'', JArr [JObj [(''text'', JStr t)]])])]])]"

definition known_json :: "jsval list" where
  "known_json = [terms_accepts, terms_described, usdc_requirement,
                 candidates_reply ''hello'', candidates_reply ''NO'', candidates_reply ''YES, approved.'',
                 JObj [(''response'', JStr ''native''), (''usage'', JNum 3)], JObj [], JNull]"

definition demo_platform :: platform where
  "demo_platform = \<lparr>
     new_Wallet = (\<lambda>k u. Some \<lparr> wallet_address = ''0xSigner'', wallet_key = k \<rparr>),
     signTypedData = (\<lambda>w d m. Some ''0xSIGNATURE''),
     base64_text = (\<lambda>h. if h = JStr (to_base64 (json_text usdc_requirement))
                         then Some (json_text usdc_requirement) else None),
     JSON_parse = (\<lambda>s. map_of (map (\<lambda>v. (json_text v, v)) known_json) s),
     String_trim = ascii_trim,
     String_toUpperCase = ascii_toUpperCase \<rparr>"

definition demo_world :: "string \<Rightarrow> world" where
  "demo_world judge_says = \<lparr>
     fetch = (\<lambda>req. case req of
                JudgeRequest url c a \<Rightarrow> Some \<lparr> ok = True, body = json_text (candidates_reply judge_says) \<rparr>
              | RetryRequest url sg b \<Rightarrow> Some \<lparr> ok = True, body = json_text (candidates_reply ''hello'') \<rparr>),
     Date_now_1 = 1700000000123,
     Date_now_2 = 1700000000456,
     randomBytes = map of_nat [0..<32] \<rparr>"

definition keyed_config :: HaloConfig where
  "keyed_config = \<lparr> privateKey = Some ''0xKEY'', apiKey = Some ''sk-1'', haloUrl = None, rpcUrl = None \<rparr>"

definition keyless_config :: HaloConfig where
  "keyless_config = \<lparr> privateKey = None, apiKey = Some ''sk-1'', haloUrl = None, rpcUrl = None \<rparr>"

definition empty_env :: process_env where
  "empty_env = \<lparr> HALO_API_KEY = None, HALO_PROXY_URL = None, HALO_WALLET_PRIVATE_KEY = None \<rparr>"

definition demo_wallet :: wallet where
  "demo_wallet = \<lparr> wallet_address = ''0xSigner'', wallet_key = ''0xKEY'' \<rparr>"

definition demo_tools :: "wallet option \<Rightarrow> HaloPaymentTools" where
  "demo_tools w = \<lparr> tools_wallet = w, tools_apiKey = ''sk-1'', tools_haloUrl = DEFAULT_HALO_URL \<rparr>"

definition keyed_handler :: HaloAutoHandler where
  "keyed_handler = \<lparr> tools = demo_tools (Some demo_wallet), autoApprove = True \<rparr>"

definition keyless_handler :: HaloAutoHandler where
  "keyless_handler = \<lparr> tools = demo_tools None, autoApprove = False \<rparr>"



definition error_details :: "jsval \<Rightarrow> jsval" where
  "error_details d = JObj [(''status'', JNum 402), (''message'', JStr ''quota exceeded''), (''errorDetails'', JArr [d])]"









definition garbled_world :: world where
  "garbled_world = (demo_world ''NO'') \<lparr> fetch := (\<lambda>req. Some \<lparr> ok = True, body = ''<html>'' \<rparr>) \<rparr>"

definition null_body_world :: world where
  "null_body_world = (demo_world ''NO'') \<lparr> fetch := (\<lambda>req. Some \<lparr> ok = True, body = ''null'' \<rparr>) \<rparr>"

definition demo_domain :: domain where
  "demo_domain = \<lparr> domain_name = JStr ''USD Coin'', domain_version = JStr ''2'', chainId = 8453,
                    verifyingContract = JStr ''0xUSDC'' \<rparr>"

definition demo_message :: message where
  "demo_message = \<lparr> msg_from = ''0xSigner'', msg_to = JStr ''0xDest'', msg_value = 1000000,
                     validAfter = 1699999940, validBefore = 1700003600,
                     nonce = hexlify (map of_nat [0..<32]) \<rparr>"

definition second_world :: world where
  "second_world = (demo_world ''NO'') \<lparr> Date_now_1 := 1700000007001, Date_now_2 := 1700000007002,
                                          randomBytes := replicate 32 255 \<rparr>"

definition second_message :: message where
  "second_message = demo_message \<lparr> validAfter := 1699999947, validBefore := 1700003607,
                                    nonce := hexlify (replicate 32 255) \<rparr>"

definition boundary_world :: world where
  "boundary_world = (demo_world ''NO'') \<lparr> Date_now_1 := 1700000000999, Date_now_2 := 1700000001000 \<rparr>"

definition boundary_message :: message where
  "boundary_message = demo_message \<lparr> validAfter := 1699999940, validBefore := 1700003601 \<rparr>"

definition native_response_json :: jsval where
  "native_response_json = JObj [(''response'', JStr ''native''), (''usage'', JNum 3)]"

section \<open>Verified properties\<close>

subsection \<open>Interceptor: classification and pass-through\<close>




subsection \<open>Requirement extraction\<close>









lemma base64_encode_Nil [simp]: "base64_encode xs = [] \<longleftrightarrow> xs = []"
  by (cases xs rule: base64_encode.cases) auto







subsection \<open>The payment amount\<close>


lemma opt_prop_total: "\<exists>y. opt_prop v k = Inr y"
  by (cases v) (auto simp: opt_prop_def)


lemma BigInt_failure: "BigInt P v = Inl e \<Longrightarrow> e = TypeError \<or> e = SyntaxError \<or> e = RangeError"
  by (cases v) (auto split: option.splits)

lemma payload_field_payloadObj:
  "payload_field (payloadObj requirement sg m) ''value'' = Inr (JStr (show_int (msg_value m)))"
  "payload_field (payloadObj requirement sg m) ''validAfter'' = Inr (JStr (show_int (validAfter m)))"
  "payload_field (payloadObj requirement sg m) ''validBefore'' = Inr (JStr (show_int (validBefore m)))"
  "payload_field (payloadObj requirement sg m) ''nonce'' = Inr (JStr (nonce m))"
  by (simp_all add: payload_field_def payloadObj_def authorization_def bindE_def)

lemma ascii_demo_platform: "ascii_faithful demo_platform"
  by (simp add: ascii_faithful_def demo_platform_def)

lemma demo_trim [simp]: "String_trim demo_platform = ascii_trim"
  by (simp add: demo_platform_def)

lemma demo_toUpperCase [simp]: "String_toUpperCase demo_platform = ascii_toUpperCase"
  by (simp add: demo_platform_def)





subsection \<open>Failures and steps of the recovery sequence\<close>

lemma thenT_events:
  assumes "list_all p (fst m)" and "\<And>v. list_all p (fst (f v))"
  shows "list_all p (fst (thenT m f))"
proof (cases m)
  case (Pair ev r)
  show ?thesis
  proof (cases r)
    case (Inl e)
    with Pair assms(1) show ?thesis by (simp add: thenT_def)
  next
    case (Inr v)
    with Pair assms(1) assms(2)[of v] show ?thesis
      by (cases "f v") (simp add: thenT_def)
  qed
qed

lemma thenT_not_failure:
  assumes "snd m \<noteq> Inl e" and "\<And>v. snd (f v) \<noteq> Inl e"
  shows "snd (thenT m f) \<noteq> Inl e"
proof (cases m)
  case (Pair ev r)
  show ?thesis
  proof (cases r)
    case (Inl e')
    with Pair assms(1) show ?thesis by (simp add: thenT_def)
  next
    case (Inr v)
    with Pair assms(2)[of v] show ?thesis
      by (cases "f v") (simp add: thenT_def)
  qed
qed

lemma get_prop_failure: "get_prop v k = Inl e \<Longrightarrow> e = TypeError"
  by (cases v) (auto split: if_splits)

lemma get_first_failure: "get_first v = Inl e \<Longrightarrow> e = TypeError"
  by (cases v) (auto split: if_splits)

lemma opt_prop_failure: "opt_prop v k \<noteq> Inl e"
  by (cases v) (auto simp: opt_prop_def)

lemma strategyA_events: "fst (strategyA P error) = [] \<or> fst (strategyA P error) = [LogHeaderFailed]"
  by (auto simp: strategyA_def split: sum.splits option.splits)

lemma strategyB_failure: "strategyB error r = Inl e \<Longrightarrow> e = TypeError"
  by (auto simp: strategyB_def bindE_def split: sum.splits jsval.splits list.splits if_splits dest: get_prop_failure)

lemma strategyC_failure: "strategyC P error r = Inl e \<Longrightarrow> e = TypeError"
  by (auto simp: strategyC_def bindE_def split: sum.splits jsval.splits option.splits if_splits dest: get_prop_failure)

lemma extract_failure: "snd (extractRequirements P error) = Inl e \<Longrightarrow> e = TypeError"
  by (auto simp: extractRequirements_def bindE_def split: prod.splits sum.splits dest: strategyB_failure strategyC_failure)

lemma extract_events: "fst (extractRequirements P error) = fst (strategyA P error)"
  by (simp add: extractRequirements_def split: prod.splits)

lemma requirement_of_failure: "requirement_of r = Inl e \<Longrightarrow> e = TypeError"
  by (auto simp: requirement_of_def bindE_def split: sum.splits if_splits dest: get_prop_failure get_first_failure)

lemma resource_of_failure: "resource_of r = Inl e \<Longrightarrow> e = TypeError"
  by (auto simp: resource_of_def bindE_def split: sum.splits if_splits dest: get_prop_failure)

lemma amountStr_of_failure: "amountStr_of r = Inl e \<Longrightarrow> e = TypeError"
  by (auto simp: amountStr_of_def bindE_def split: sum.splits if_splits dest: get_prop_failure)

lemma signing_amount_failure:
  "signing_amount P r = Inl e \<Longrightarrow> e = TypeError \<or> e = SyntaxError \<or> e = RangeError"
  by (auto simp: signing_amount_def bindE_def split: sum.splits if_splits dest: get_prop_failure BigInt_failure)

lemma signing_message_failure:
  "signing_message P W w r = Inl e \<Longrightarrow> e = TypeError \<or> e = SyntaxError \<or> e = RangeError"
  by (auto simp: signing_message_def bindE_def split: sum.splits dest: signing_amount_failure get_prop_failure)

lemma signing_domain_failure: "signing_domain r = Inl e \<Longrightarrow> e = TypeError"
  by (auto simp: signing_domain_def bindE_def opt_prop_failure split: sum.splits dest: get_prop_failure)

lemma envelope_failure: "envelope v = Inl e \<Longrightarrow> e = TypeError"
  by (auto simp: envelope_def split: option.splits)

lemma signPayment_cases:
  "signPayment P W T r = (ev, res) \<Longrightarrow>
     (ev = [] \<or> (\<exists>d m. ev = [SignTypedData d m])) \<and>
     (\<forall>e. res = Inl e \<longrightarrow> e \<in> {NoPrivateKey, TypeError, SyntaxError, RangeError, WalletRejected})"
  by (auto simp: signPayment_def thenT_def pureT_def split: option.splits sum.splits prod.splits
        dest: signing_message_failure signing_domain_failure envelope_failure)

lemma retry_cases:
  "retry P W sg args api = (ev, res) \<Longrightarrow>
     (\<exists>u b. ev = [LogRetry, Fetch (RetryRequest u sg b)]) \<and>
     (\<forall>e. res = Inl e \<longrightarrow> e = TransportFailure \<or> e = SyntaxError \<or> (\<exists>t. e = RetryFailed t))"
  by (auto simp: retry_def Let_def split: option.splits if_splits)


text \<open>A handler with \<open>autoApprove\<close> set never reaches the judge.\<close>

lemma autoRecover_autoApprove:
  assumes "autoApprove H"
  shows "list_all (\<lambda>e. \<not> is_judge_event e) (fst (autoRecover P W H error args))"
    and "snd (autoRecover P W H error args) \<noteq> Inl JudgeDenied"
proof -
  let ?p = "\<lambda>e. \<not> is_judge_event e"
  have ex: "list_all ?p (fst (extractRequirements P error))"
    using strategyA_events[of P error] by (auto simp: extract_events)
  have ap: "\<And>r a. list_all ?p (fst (approval P W H r a))"
    using assms by (simp add: approval_def)
  have sp: "\<And>r. list_all ?p (fst (signPayment P W (tools H) r))"
  proof -
    fix r
    show "list_all ?p (fst (signPayment P W (tools H) r))"
      using signPayment_cases[of P W "tools H" r "fst (signPayment P W (tools H) r)" "snd (signPayment P W (tools H) r)"]
      by auto
  qed
  have rt: "\<And>sg api. list_all ?p (fst (retry P W sg args api))"
    by (simp add: retry_def Let_def)
  show "list_all ?p (fst (autoRecover P W H error args))"
    unfolding autoRecover_def
    by (intro thenT_events ex) (auto simp: pureT_def intro!: thenT_events ap sp rt)
  have ex': "snd (extractRequirements P error) \<noteq> Inl JudgeDenied"
    using extract_failure[of P error JudgeDenied] by auto
  have ap': "\<And>r a. snd (approval P W H r a) \<noteq> Inl JudgeDenied"
    using assms by (simp add: approval_def)
  have sp': "\<And>r. snd (signPayment P W (tools H) r) \<noteq> Inl JudgeDenied"
  proof -
    fix r
    show "snd (signPayment P W (tools H) r) \<noteq> Inl JudgeDenied"
      using signPayment_cases[of P W "tools H" r "fst (signPayment P W (tools H) r)" "snd (signPayment P W (tools H) r)"]
      by auto
  qed
  have rt': "\<And>sg api. snd (retry P W sg args api) \<noteq> Inl JudgeDenied"
    by (auto simp: retry_def Let_def split: option.splits)
  have q: "\<And>r. snd (pureT (requirement_of r)) \<noteq> Inl JudgeDenied"
          "\<And>r. snd (pureT (resource_of r)) \<noteq> Inl JudgeDenied"
          "\<And>r. snd (pureT (amountStr_of r)) \<noteq> Inl JudgeDenied"
    using requirement_of_failure resource_of_failure amountStr_of_failure
    by (fastforce simp: pureT_def)+
  show "snd (autoRecover P W H error args) \<noteq> Inl JudgeDenied"
    unfolding autoRecover_def
  proof (rule thenT_not_failure[OF ex'], goal_cases)
    case (1 v)
    show ?case
      by (cases "truthy v") (simp_all, intro thenT_not_failure q ap' sp' rt')
  qed
qed

subsection \<open>haloSystem and the judge\<close>

text \<open>
  Claim C4. With neither the \<open>privateKey\<close> option nor \<open>HALO_WALLET_PRIVATE_KEY\<close> set,
  \<open>haloSystem\<close> throws before a handler or a proxy exists. Every handler \<open>haloSystem\<close> does
  return has \<open>autoApprove\<close> set, and its \<open>autoRecover\<close> never consults the judge, for any
  error, arguments and network: the trace holds no lifeline line and no judge request, and
  the run never ends in "Judge denied payment.".
\<close>

theorem haloSystem_requires_key:
  "(privateKey config = None \<and> HALO_WALLET_PRIVATE_KEY env = None \<longrightarrow> haloSystem P env config = Inl KeyRequired)
   \<and> (\<forall>H. haloSystem P env config = Inr H \<longrightarrow>
         autoApprove H \<and>
         (\<forall>W error args.
            list_all (\<lambda>e. \<not> is_judge_event e) (fst (autoRecover P W H error args)) \<and>
            snd (autoRecover P W H error args) \<noteq> Inl JudgeDenied))"
proof (intro conjI impI allI)
  assume "privateKey config = None \<and> HALO_WALLET_PRIVATE_KEY env = None"
  then show "haloSystem P env config = Inl KeyRequired"
    by (simp add: haloSystem_def or_str_def)
next
  fix H assume h: "haloSystem P env config = Inr H"
  then show a: "autoApprove H"
    by (auto simp: haloSystem_def new_HaloAutoHandler_def bindE_def Let_def or_str_def
          split: option.splits sum.splits if_splits)
  fix W error args
  show "list_all (\<lambda>e. \<not> is_judge_event e) (fst (autoRecover P W H error args))"
    using autoRecover_autoApprove(1)[OF a] .
  show "snd (autoRecover P W H error args) \<noteq> Inl JudgeDenied"
    using autoRecover_autoApprove(2)[OF a] .
qed

theorem haloSystem_requires_key_witness:
  "privateKey keyless_config = None \<and> HALO_WALLET_PRIVATE_KEY empty_env = None \<and>
   haloSystem demo_platform empty_env keyless_config = Inl KeyRequired \<and>
   haloSystem demo_platform empty_env keyed_config = Inr keyed_handler \<and>
   autoApprove keyed_handler \<and>
   list_all (\<lambda>e. \<not> is_judge_event e)
     (fst (autoRecover demo_platform (demo_world ''NO'') keyed_handler (error_details terms_accepts) [JStr ''Hello''])) \<and>
   snd (autoRecover demo_platform (demo_world ''NO'') keyed_handler (error_details terms_accepts) [JStr ''Hello''])
     \<noteq> Inl JudgeDenied"
proof -
  have k: "privateKey keyless_config = None \<and> HALO_WALLET_PRIVATE_KEY empty_env = None"
    by (simp add: keyless_config_def empty_env_def)
  have h: "haloSystem demo_platform empty_env keyed_config = Inr keyed_handler"
    by (simp add: haloSystem_def new_HaloAutoHandler_def new_HaloPaymentTools_def or_str_def
          bindE_def keyed_config_def empty_env_def demo_platform_def keyed_handler_def
          demo_tools_def demo_wallet_def strip_slash_def DEFAULT_HALO_URL_def)
  show ?thesis
    using haloSystem_requires_key[of keyless_config empty_env demo_platform]
          haloSystem_requires_key[of keyed_config empty_env demo_platform] k h
    by simp
qed

subsection \<open>Recovery without a signing key\<close>





lemma parse_reply_NO:
  "JSON_parse demo_platform (json_text (candidates_reply ''NO'')) = Some (candidates_reply ''NO'')"
  by (simp add: demo_platform_def known_json_def json_text_def usdc_requirement_def candidates_reply_def
        terms_accepts_def terms_described_def json_quote_def json_escape_def)

lemma decision_NO: "judge_decision demo_platform (candidates_reply ''NO'') = Inr ''NO''"
  by (simp add: judge_decision_def candidate_text_def candidates_reply_def bindE_def opt_first_def
        opt_prop_def ascii_trim_def is_ws_def ascii_toUpperCase_def upper_char_def)

lemma extract_described:
  "extractRequirements demo_platform (error_details terms_described) = ([], Inr terms_described)"
  by (simp add: extractRequirements_def strategyA_def strategyB_def strategyC_def payment_header_def
        headers_get_def opt_prop_def bindE_def error_details_def terms_described_def)


subsection \<open>The judge's decision\<close>

lemma candidate_text_reply: "candidate_text (candidates_reply t) = Inr (JStr t)"
  by (simp add: candidate_text_def candidates_reply_def bindE_def opt_first_def opt_prop_def)

lemma candidate_text_returns: "\<not> nullish data \<Longrightarrow> \<exists>t. candidate_text data = Inr t"
proof -
  assume n: "\<not> nullish data"
  have f: "\<And>v. \<exists>y. opt_first v = Inr y"
  proof -
    fix v show "\<exists>y. opt_first v = Inr y"
      by (cases v) (auto simp: opt_first_def)
  qed
  obtain cs where 1: "get_prop data ''candidates'' = Inr cs"
    using n by (cases data) auto
  obtain c where 2: "opt_first cs = Inr c" using f by blast
  obtain content where 3: "opt_prop c ''content'' = Inr content" using opt_prop_total by blast
  obtain parts where 4: "opt_prop content ''parts'' = Inr parts" using opt_prop_total by blast
  obtain part where 5: "opt_first parts = Inr part" using f by blast
  obtain t where 6: "opt_prop part ''text'' = Inr t" using opt_prop_total by blast
  show ?thesis
    by (simp add: candidate_text_def bindE_def 1 2 3 4 5 6)
qed

lemma parse_reply_YES:
  "JSON_parse demo_platform (json_text (candidates_reply ''YES, approved.'')) = Some (candidates_reply ''YES, approved.'')"
  by (simp add: demo_platform_def known_json_def json_text_def usdc_requirement_def candidates_reply_def
        terms_accepts_def terms_described_def json_quote_def json_escape_def)

lemma parse_garbled: "JSON_parse demo_platform ''<html>'' = None"
  by (simp add: demo_platform_def known_json_def json_text_def usdc_requirement_def candidates_reply_def
        terms_accepts_def terms_described_def json_quote_def json_escape_def)

lemma parse_null: "JSON_parse demo_platform ''null'' = Some JNull"
  by (simp add: demo_platform_def known_json_def json_text_def usdc_requirement_def candidates_reply_def
        terms_accepts_def terms_described_def json_quote_def json_escape_def)

lemma ascii_decision:
  assumes "ascii_faithful P" and "is_ascii s" and "is_ascii (ascii_trim s)"
  shows "String_toUpperCase P (String_trim P s) = ascii_toUpperCase (ascii_trim s)"
  using assms by (simp add: ascii_faithful_def)

text \<open>
  A reply that is no JSON does not give the sentinel: \<open>response.json()\<close> throws, and so
  does \<open>consultJudge\<close>. On a handler without a key, recovery then ends in that
  \<open>SyntaxError\<close>, not in "Judge denied payment.". A reply whose JSON is \<open>null\<close> ends it
  in the \<open>TypeError\<close> of reading \<open>candidates\<close> on null.
\<close>

theorem unparseable_reply_is_no_sentinel:
  "snd (consultJudge demo_platform garbled_world (tools keyless_handler)
          (JStr ''physics data'') (JStr ''1000000'')) = Inl SyntaxError \<and>
   autoRecover demo_platform garbled_world keyless_handler (error_details terms_described) [JStr ''Hello'']
     = ([LogLifeline (JStr ''physics data'') (JStr ''1000000''),
         Fetch (JudgeRequest (endpoint (tools keyless_handler)) (JStr ''physics data'') (JStr ''1000000''))],
        Inl SyntaxError) \<and>
   autoRecover demo_platform null_body_world keyless_handler (error_details terms_described) [JStr ''Hello'']
     = ([LogLifeline (JStr ''physics data'') (JStr ''1000000''),
         Fetch (JudgeRequest (endpoint (tools keyless_handler)) (JStr ''physics data'') (JStr ''1000000''))],
        Inl TypeError)"
proof -
  have cj: "consultJudge demo_platform garbled_world (tools keyless_handler)
          (JStr ''physics data'') (JStr ''1000000'')
        = ([LogLifeline (JStr ''physics data'') (JStr ''1000000''),
            Fetch (JudgeRequest (endpoint (tools keyless_handler)) (JStr ''physics data'') (JStr ''1000000''))],
           Inl SyntaxError)"
    by (simp add: consultJudge_def Let_def garbled_world_def parse_garbled)
  have cn: "consultJudge demo_platform null_body_world (tools keyless_handler)
          (JStr ''physics data'') (JStr ''1000000'')
        = ([LogLifeline (JStr ''physics data'') (JStr ''1000000''),
            Fetch (JudgeRequest (endpoint (tools keyless_handler)) (JStr ''physics data'') (JStr ''1000000''))],
           Inl TypeError)"
    by (simp add: consultJudge_def Let_def null_body_world_def parse_null judge_decision_def
          candidate_text_def bindE_def)
  have rq: "requirement_of terms_described = Inr usdc_requirement"
    by (simp add: requirement_of_def terms_described_def bindE_def)
  have rs: "resource_of terms_described = Inr (JObj [(''description'', JStr ''physics data'')])"
    by (simp add: resource_of_def terms_described_def bindE_def)
  have am: "amountStr_of usdc_requirement = Inr (JStr ''1000000'')"
    by (simp add: amountStr_of_def usdc_requirement_def bindE_def)
  have t: "truthy terms_described" "\<not> autoApprove keyless_handler"
    by (simp_all add: terms_described_def keyless_handler_def)
  have 1: "autoRecover demo_platform garbled_world keyless_handler (error_details terms_described) [JStr ''Hello'']
     = ([LogLifeline (JStr ''physics data'') (JStr ''1000000''),
         Fetch (JudgeRequest (endpoint (tools keyless_handler)) (JStr ''physics data'') (JStr ''1000000''))],
        Inl SyntaxError)"
    by (simp add: autoRecover_def extract_described t rq rs am approval_def cj thenT_def pureT_def)
  have 2: "autoRecover demo_platform null_body_world keyless_handler (error_details terms_described) [JStr ''Hello'']
     = ([LogLifeline (JStr ''physics data'') (JStr ''1000000''),
         Fetch (JudgeRequest (endpoint (tools keyless_handler)) (JStr ''physics data'') (JStr ''1000000''))],
        Inl TypeError)"
    by (simp add: autoRecover_def extract_described t rq rs am approval_def cn thenT_def pureT_def)
  show ?thesis
    using cj 1 2 by simp
qed

text \<open>
  Claim C6, amended. Let \<open>data\<close> be the parsed body of the advisory response and \<open>t\<close>
  the value at \<open>candidates[0].content.parts[0].text\<close>, which can be read (possibly as
  undefined) whenever \<open>data\<close> is not null or undefined.
  \<^item> When \<open>t\<close> is a string, the decision is \<open>t\<close> trimmed and upper-cased by the
    platform's \<open>trim\<close> and \<open>toUpperCase\<close>, unless that is the empty string.
  \<^item> When \<open>t\<close> is null or undefined (the path is absent), or a string whose trimmed and
    upper-cased form is empty, the decision is the sentinel \<open>ERROR\<close>, which does not
    contain \<open>YES\<close>.
  \<^item> \<open>consultJudge\<close> returns that decision for the parsed body. It returns no decision
    when the body does not parse (\<open>SyntaxError\<close>), when \<open>data\<close> is null, or when \<open>t\<close>
    is neither a string nor null nor undefined (\<open>TypeError\<close>).
  \<^item> On a handler that consults the judge, the caller approves exactly when a decision
    came back and contains \<open>YES\<close>; a decision without \<open>YES\<close> is "Judge denied
    payment."; a consultation that failed ends the approval step with its own error,
    which is no approval.
  \<^item> On a platform whose \<open>trim\<close> and \<open>toUpperCase\<close> treat ASCII text as ECMAScript
    prescribes, "YES, approved." gives \<open>YES, APPROVED.\<close>, which is approved, "NO" gives
    \<open>NO\<close>, which is denied, and an empty text gives the sentinel; on every platform an
    empty object gives the sentinel.
\<close>

theorem judge_decision_approval:
  "(\<not> nullish data \<longrightarrow> (\<exists>t. candidate_text data = Inr t))
 \<and> (candidate_text data = Inr (JStr s) \<and> String_toUpperCase P (String_trim P s) \<noteq> []
      \<longrightarrow> judge_decision P data = Inr (String_toUpperCase P (String_trim P s)))
 \<and> (candidate_text data = Inr t \<and>
      (nullish t \<or> (\<exists>s'. t = JStr s' \<and> String_toUpperCase P (String_trim P s') = []))
      \<longrightarrow> judge_decision P data = Inr ''ERROR'')
 \<and> \<not> str_includes ''ERROR'' ''YES''
 \<and> (nullish data \<or> (candidate_text data = Inr t \<and> \<not> nullish t \<and> (\<forall>s'. t \<noteq> JStr s'))
      \<longrightarrow> judge_decision P data = Inl TypeError)
 \<and> (fetch W (JudgeRequest (endpoint T) c a) = Some r \<and> JSON_parse P (body r) = Some data
      \<longrightarrow> snd (consultJudge P W T c a) = judge_decision P data)
 \<and> (fetch W (JudgeRequest (endpoint T) c a) = Some r \<and> JSON_parse P (body r) = None
      \<longrightarrow> snd (consultJudge P W T c a) = Inl SyntaxError)
 \<and> (\<not> autoApprove H \<and> get_prop resource ''description'' = Inr d \<longrightarrow>
      (snd (approval P W H resource amountStr) = Inr ()
        \<longleftrightarrow> (\<exists>decision. snd (consultJudge P W (tools H) d amountStr) = Inr decision \<and>
                       str_includes decision ''YES'')))
 \<and> (\<not> autoApprove H \<and> get_prop resource ''description'' = Inr d \<and>
     snd (consultJudge P W (tools H) d amountStr) = Inr decision \<and> \<not> str_includes decision ''YES''
      \<longrightarrow> snd (approval P W H resource amountStr) = Inl JudgeDenied)
 \<and> (\<not> autoApprove H \<and> get_prop resource ''description'' = Inr d \<and>
     snd (consultJudge P W (tools H) d amountStr) = Inl e
      \<longrightarrow> snd (approval P W H resource amountStr) = Inl e)
 \<and> (ascii_faithful P \<longrightarrow>
       judge_decision P (candidates_reply ''YES, approved.'') = Inr ''YES, APPROVED.'' \<and>
       judge_decision P (candidates_reply ''NO'') = Inr ''NO'' \<and>
       judge_decision P (candidates_reply []) = Inr ''ERROR'')
 \<and> str_includes ''YES, APPROVED.'' ''YES''
 \<and> \<not> str_includes ''NO'' ''YES''
 \<and> judge_decision P (JObj []) = Inr ''ERROR''"
proof (intro conjI impI)
  assume "\<not> nullish data"
  then show "\<exists>t. candidate_text data = Inr t"
    by (rule candidate_text_returns)
next
  show "\<not> str_includes ''ERROR'' ''YES''" "str_includes ''YES, APPROVED.'' ''YES''" "\<not> str_includes ''NO'' ''YES''"
    by simp_all
  show "judge_decision P (JObj []) = Inr ''ERROR''"
    by (simp add: judge_decision_def candidate_text_def bindE_def opt_first_def opt_prop_def)
next
  assume "candidate_text data = Inr (JStr s) \<and> String_toUpperCase P (String_trim P s) \<noteq> []"
  then show "judge_decision P data = Inr (String_toUpperCase P (String_trim P s))"
    by (simp add: judge_decision_def bindE_def)
next
  assume "candidate_text data = Inr t \<and>
      (nullish t \<or> (\<exists>s'. t = JStr s' \<and> String_toUpperCase P (String_trim P s') = []))"
  then show "judge_decision P data = Inr ''ERROR''"
    by (cases t) (auto simp: judge_decision_def bindE_def)
next
  assume "nullish data \<or> (candidate_text data = Inr t \<and> \<not> nullish t \<and> (\<forall>s'. t \<noteq> JStr s'))"
  then show "judge_decision P data = Inl TypeError"
  proof
    assume "nullish data"
    then show ?thesis
      by (cases data) (simp_all add: judge_decision_def candidate_text_def bindE_def)
  next
    assume "candidate_text data = Inr t \<and> \<not> nullish t \<and> (\<forall>s'. t \<noteq> JStr s')"
    then show ?thesis
      by (cases t) (simp_all add: judge_decision_def bindE_def)
  qed
next
  assume "fetch W (JudgeRequest (endpoint T) c a) = Some r \<and> JSON_parse P (body r) = Some data"
  then show "snd (consultJudge P W T c a) = judge_decision P data"
    by (simp add: consultJudge_def Let_def)
next
  assume "fetch W (JudgeRequest (endpoint T) c a) = Some r \<and> JSON_parse P (body r) = None"
  then show "snd (consultJudge P W T c a) = Inl SyntaxError"
    by (simp add: consultJudge_def Let_def)
next
  assume h: "\<not> autoApprove H \<and> get_prop resource ''description'' = Inr d"
  obtain ev res where cj: "consultJudge P W (tools H) d amountStr = (ev, res)"
    by (cases "consultJudge P W (tools H) d amountStr")
  show "snd (approval P W H resource amountStr) = Inr ()
        \<longleftrightarrow> (\<exists>decision. snd (consultJudge P W (tools H) d amountStr) = Inr decision \<and>
                       str_includes decision ''YES'')"
    using h cj by (cases res) (auto simp: approval_def thenT_def pureT_def)
next
  assume h: "\<not> autoApprove H \<and> get_prop resource ''description'' = Inr d \<and>
     snd (consultJudge P W (tools H) d amountStr) = Inr decision \<and> \<not> str_includes decision ''YES''"
  obtain ev res where cj: "consultJudge P W (tools H) d amountStr = (ev, res)"
    by (cases "consultJudge P W (tools H) d amountStr")
  show "snd (approval P W H resource amountStr) = Inl JudgeDenied"
    using h cj by (simp add: approval_def thenT_def pureT_def)
next
  assume h: "\<not> autoApprove H \<and> get_prop resource ''description'' = Inr d \<and>
     snd (consultJudge P W (tools H) d amountStr) = Inl e"
  obtain ev res where cj: "consultJudge P W (tools H) d amountStr = (ev, res)"
    by (cases "consultJudge P W (tools H) d amountStr")
  show "snd (approval P W H resource amountStr) = Inl e"
    using h cj by (simp add: approval_def thenT_def pureT_def)
next
  assume af: "ascii_faithful P"
  have y: "String_toUpperCase P (String_trim P ''YES, approved.'') = ''YES, APPROVED.''"
    using ascii_decision[OF af, of "''YES, approved.''"]
    by (simp add: is_ascii_def ascii_trim_def is_ws_def ascii_toUpperCase_def upper_char_def
          char_of_def bit_iff_odd)
  have n: "String_toUpperCase P (String_trim P ''NO'') = ''NO''"
    using ascii_decision[OF af, of "''NO''"]
    by (simp add: is_ascii_def ascii_trim_def is_ws_def ascii_toUpperCase_def upper_char_def)
  have e: "String_toUpperCase P (String_trim P []) = []"
    using ascii_decision[OF af, of "[]"]
    by (simp add: is_ascii_def ascii_trim_def ascii_toUpperCase_def)
  show "judge_decision P (candidates_reply ''YES, approved.'') = Inr ''YES, APPROVED.''"
    by (simp add: judge_decision_def candidate_text_reply bindE_def y)
  show "judge_decision P (candidates_reply ''NO'') = Inr ''NO''"
    by (simp add: judge_decision_def candidate_text_reply bindE_def n)
  show "judge_decision P (candidates_reply []) = Inr ''ERROR''"
    by (simp add: judge_decision_def candidate_text_reply bindE_def e)
qed

theorem judge_decision_approval_witness:
  "judge_decision demo_platform (candidates_reply '' yes, ok '') = Inr ''YES, OK'' \<and>
   judge_decision demo_platform (candidates_reply ''YES, approved.'') = Inr ''YES, APPROVED.'' \<and>
   judge_decision demo_platform (JObj []) = Inr ''ERROR'' \<and>
   judge_decision demo_platform JNull = Inl TypeError \<and>
   snd (consultJudge demo_platform (demo_world ''YES, approved.'') (tools keyless_handler) JUndefined (JStr ''1000000''))
     = Inr ''YES, APPROVED.'' \<and>
   snd (consultJudge demo_platform garbled_world (tools keyless_handler) JUndefined (JStr ''1000000''))
     = Inl SyntaxError \<and>
   snd (approval demo_platform (demo_world ''YES, approved.'') keyless_handler (JObj []) (JStr ''1000000'')) = Inr () \<and>
   snd (approval demo_platform (demo_world ''NO'') keyless_handler (JObj []) (JStr ''1000000'')) = Inl JudgeDenied \<and>
   snd (approval demo_platform garbled_world keyless_handler (JObj []) (JStr ''1000000'')) = Inl SyntaxError"
proof -
  let ?T = "tools keyless_handler"
  let ?a = "JStr ''1000000''"
  have tr: "ascii_trim '' yes, ok '' = ''yes, ok''"
    by (simp add: ascii_trim_def is_ws_def)
  have up: "ascii_toUpperCase ''yes, ok'' = ''YES, OK''"
    by (simp add: ascii_toUpperCase_def upper_char_def char_of_def bit_iff_odd)
  have 1: "judge_decision demo_platform (candidates_reply '' yes, ok '') = Inr ''YES, OK''"
    using judge_decision_approval[where data = "candidates_reply '' yes, ok ''" and s = "'' yes, ok ''"
        and P = demo_platform]
      candidate_text_reply[of "'' yes, ok ''"] tr up
    by simp
  have y1: "judge_decision demo_platform (candidates_reply ''YES, approved.'') = Inr ''YES, APPROVED.''"
    using judge_decision_approval[where P = demo_platform] ascii_demo_platform
    by simp
  have 2: "judge_decision demo_platform (JObj []) = Inr ''ERROR''"
    using judge_decision_approval[where P = demo_platform]
    by simp
  have z2: "judge_decision demo_platform JNull = Inl TypeError"
    using judge_decision_approval[where data = JNull and P = demo_platform]
    by simp
  have fy: "fetch (demo_world ''YES, approved.'') (JudgeRequest (endpoint ?T) JUndefined ?a)
              = Some \<lparr> ok = True, body = json_text (candidates_reply ''YES, approved.'') \<rparr>"
    by (simp add: demo_world_def)
  have fn: "fetch (demo_world ''NO'') (JudgeRequest (endpoint ?T) JUndefined ?a)
              = Some \<lparr> ok = True, body = json_text (candidates_reply ''NO'') \<rparr>"
    by (simp add: demo_world_def)
  have fg: "fetch garbled_world (JudgeRequest (endpoint ?T) JUndefined ?a) = Some \<lparr> ok = True, body = ''<html>'' \<rparr>"
    by (simp add: garbled_world_def)
  note y = judge_decision_approval[where W = "demo_world ''YES, approved.''" and T = ?T and c = JUndefined and a = ?a
      and P = demo_platform and data = "candidates_reply ''YES, approved.''"
      and r = "\<lparr> ok = True, body = json_text (candidates_reply ''YES, approved.'') \<rparr>"
      and H = keyless_handler and resource = "JObj []" and d = JUndefined and amountStr = ?a]
  have 3: "snd (consultJudge demo_platform (demo_world ''YES, approved.'') ?T JUndefined ?a) = Inr ''YES, APPROVED.''"
    using y fy parse_reply_YES y1 by simp
  note n = judge_decision_approval[where W = "demo_world ''NO''" and T = ?T and c = JUndefined and a = ?a
      and P = demo_platform and data = "candidates_reply ''NO''"
      and r = "\<lparr> ok = True, body = json_text (candidates_reply ''NO'') \<rparr>"
      and H = keyless_handler and resource = "JObj []" and d = JUndefined and amountStr = ?a
      and decision = "''NO''"]
  have jn: "snd (consultJudge demo_platform (demo_world ''NO'') ?T JUndefined ?a) = Inr ''NO''"
    using n fn parse_reply_NO decision_NO by simp
  note g = judge_decision_approval[where W = garbled_world and T = ?T and c = JUndefined and a = ?a
      and P = demo_platform and r = "\<lparr> ok = True, body = ''<html>'' \<rparr>"
      and H = keyless_handler and resource = "JObj []" and d = JUndefined and amountStr = ?a
      and e = SyntaxError]
  have 4: "snd (consultJudge demo_platform garbled_world ?T JUndefined ?a) = Inl SyntaxError"
    using g fg parse_garbled by simp
  have na: "\<not> autoApprove keyless_handler" "get_prop (JObj []) ''description'' = Inr JUndefined"
    by (simp_all add: keyless_handler_def)
  have 5: "snd (approval demo_platform (demo_world ''YES, approved.'') keyless_handler (JObj []) ?a) = Inr ()"
    using y na 3 by simp
  have 6: "snd (approval demo_platform (demo_world ''NO'') keyless_handler (JObj []) ?a) = Inl JudgeDenied"
    using n na jn by simp
  have 7: "snd (approval demo_platform garbled_world keyless_handler (JObj []) ?a) = Inl SyntaxError"
    using g na 4 by simp
  show ?thesis
    using 1 y1 2 z2 3 4 5 6 7 by simp
qed

subsection \<open>The signed authorization\<close>

lemma envelope_payloadObj:
  "envelope (payloadObj r sg m) = Inr (to_base64 (json_text (payloadObj r sg m)))"
  by (simp add: envelope_def payloadObj_def json_text_def)

lemma signPayment_success:
  assumes "signPayment P W T requirement = (ev, Inr env)"
  shows "\<exists>w d m sg. tools_wallet T = Some w \<and> signing_message P W w requirement = Inr m \<and>
            signing_domain requirement = Inr d \<and> signTypedData P w d m = Some sg \<and>
            ev = [SignTypedData d m] \<and> env = to_base64 (json_text (payloadObj requirement sg m))"
  using assms
  by (auto simp: signPayment_def thenT_def pureT_def envelope_payloadObj
        split: option.splits sum.splits prod.splits)

lemma signing_message_window:
  assumes "signing_message P W w requirement = Inr m"
  shows "validAfter m = Date_now_1 W div 1000 - 60" and "validBefore m = Date_now_2 W div 1000 + 3600"
    and "nonce m = hexlify (randomBytes W)"
  using assms by (auto simp: signing_message_def bindE_def split: sum.splits)

lemma demo_signing_message:
  "signing_message demo_platform (demo_world t) demo_wallet usdc_requirement = Inr demo_message"
  by (simp add: signing_message_def signing_amount_def bindE_def usdc_requirement_def demo_world_def
        demo_message_def demo_wallet_def ascii_trim_def is_ws_def parse_radix_def digit_of_def)

lemma boundary_signing_message:
  "signing_message demo_platform boundary_world demo_wallet usdc_requirement = Inr boundary_message"
  by (simp add: signing_message_def signing_amount_def bindE_def usdc_requirement_def demo_world_def
        boundary_world_def boundary_message_def demo_message_def demo_wallet_def ascii_trim_def
        is_ws_def parse_radix_def digit_of_def)

lemma demo_signTypedData: "signTypedData demo_platform w d m = Some ''0xSIGNATURE''"
  by (simp add: demo_platform_def)

lemma demo_signing_domain: "signing_domain usdc_requirement = Inr demo_domain"
  by (simp add: signing_domain_def bindE_def usdc_requirement_def opt_prop_def demo_domain_def)

lemma demo_signPayment:
  "signPayment demo_platform (demo_world t) (demo_tools (Some demo_wallet)) usdc_requirement
     = ([SignTypedData demo_domain demo_message],
        Inr (to_base64 (json_text (payloadObj usdc_requirement ''0xSIGNATURE'' demo_message))))"
  by (simp add: signPayment_def demo_tools_def thenT_def pureT_def demo_signing_message
        demo_signing_domain envelope_payloadObj demo_signTypedData)

text \<open>
  \<open>signPayment\<close> reads the clock twice, once for each bound. A call whose first reading
  is the last millisecond of a second and whose second reading is the first millisecond
  of the next signs, and returns in its envelope, a window of 3661 seconds.
\<close>

theorem window_across_second_boundary:
  "Date_now_1 boundary_world = 1700000000999 \<and> Date_now_2 boundary_world = 1700000001000 \<and>
   signPayment demo_platform boundary_world (demo_tools (Some demo_wallet)) usdc_requirement
     = ([SignTypedData demo_domain boundary_message],
        envelope (payloadObj usdc_requirement ''0xSIGNATURE'' boundary_message)) \<and>
   (\<exists>env. envelope (payloadObj usdc_requirement ''0xSIGNATURE'' boundary_message) = Inr env) \<and>
   payload_field (payloadObj usdc_requirement ''0xSIGNATURE'' boundary_message) ''validAfter''
     = Inr (JStr ''1699999940'') \<and>
   payload_field (payloadObj usdc_requirement ''0xSIGNATURE'' boundary_message) ''validBefore''
     = Inr (JStr ''1700003601'') \<and>
   validBefore boundary_message - validAfter boundary_message = 3661"
proof -
  have s: "signPayment demo_platform boundary_world (demo_tools (Some demo_wallet)) usdc_requirement
     = ([SignTypedData demo_domain boundary_message],
        envelope (payloadObj usdc_requirement ''0xSIGNATURE'' boundary_message))"
    by (simp add: signPayment_def demo_tools_def thenT_def pureT_def boundary_signing_message
          demo_signing_domain envelope_payloadObj demo_signTypedData)
  have v: "validAfter boundary_message = 1699999940" "validBefore boundary_message = 1700003601"
    by (simp_all add: boundary_message_def)
  have d: "show_int 1699999940 = ''1699999940''" "show_int 1700003601 = ''1700003601''"
    by (simp_all add: show_int_def show_nat.simps digit_char_def char_of_def bit_iff_odd)
  show ?thesis
    using s v d by (simp add: boundary_world_def payload_field_payloadObj envelope_payloadObj)
qed

text \<open>
  Claim C7, amended. Let \<open>t\<^sub>1\<close> and \<open>t\<^sub>2\<close> be the two clock readings of a call of
  \<open>signPayment\<close>, in milliseconds, in the order they are taken. For every call that
  returns an envelope, the authorization that is signed, and the one in the object the
  envelope encodes (in decimal text, at \<open>payload.authorization\<close>), have
  \<open>validAfter = \<lfloor>t\<^sub>1 / 1000\<rfloor> - 60\<close> and \<open>validBefore = \<lfloor>t\<^sub>2 / 1000\<rfloor> + 3600\<close>. The window
  is 3660 seconds plus the whole seconds that passed between the two readings. When
  both readings fall in one whole second \<open>now\<close>, it is 3660 seconds long and
  \<open>validAfter < now \<le> validBefore\<close>.
\<close>

theorem signPayment_window:
  assumes "signPayment P W T requirement = (ev, Inr env)"
  shows "\<exists>w d m sg. tools_wallet T = Some w \<and> signTypedData P w d m = Some sg \<and>
            ev = [SignTypedData d m] \<and> envelope (payloadObj requirement sg m) = Inr env \<and>
            validAfter m = Date_now_1 W div 1000 - 60 \<and>
            validBefore m = Date_now_2 W div 1000 + 3600 \<and>
            payload_field (payloadObj requirement sg m) ''validAfter''
              = Inr (JStr (show_int (Date_now_1 W div 1000 - 60))) \<and>
            payload_field (payloadObj requirement sg m) ''validBefore''
              = Inr (JStr (show_int (Date_now_2 W div 1000 + 3600))) \<and>
            validBefore m - validAfter m = 3660 + (Date_now_2 W div 1000 - Date_now_1 W div 1000) \<and>
            (Date_now_1 W div 1000 = Date_now_2 W div 1000 \<longrightarrow>
               validBefore m - validAfter m = 3660 \<and>
               validAfter m < Date_now_1 W div 1000 \<and> Date_now_1 W div 1000 \<le> validBefore m)"
proof -
  from signPayment_success[OF assms] obtain w d m sg where
    h: "tools_wallet T = Some w" "signing_message P W w requirement = Inr m"
       "signTypedData P w d m = Some sg"
       "ev = [SignTypedData d m]" "env = to_base64 (json_text (payloadObj requirement sg m))"
    by blast
  note v = signing_message_window(1,2)[OF h(2)]
  have e: "envelope (payloadObj requirement sg m) = Inr env"
    by (simp add: envelope_payloadObj h(5))
  have p: "payload_field (payloadObj requirement sg m) ''validAfter''
              = Inr (JStr (show_int (Date_now_1 W div 1000 - 60)))"
          "payload_field (payloadObj requirement sg m) ''validBefore''
              = Inr (JStr (show_int (Date_now_2 W div 1000 + 3600)))"
    by (simp_all add: payload_field_payloadObj v)
  have a: "validBefore m - validAfter m = 3660 + (Date_now_2 W div 1000 - Date_now_1 W div 1000)"
    by (simp add: v)
  have b: "Date_now_1 W div 1000 = Date_now_2 W div 1000 \<longrightarrow>
               validBefore m - validAfter m = 3660 \<and>
               validAfter m < Date_now_1 W div 1000 \<and> Date_now_1 W div 1000 \<le> validBefore m"
    by (simp add: v)
  show ?thesis
    by (intro exI[of _ w] exI[of _ d] exI[of _ m] exI[of _ sg] conjI h(1) h(3) h(4) e v p a b)
qed

theorem signPayment_window_witness:
  "signPayment demo_platform (demo_world ''NO'') (demo_tools (Some demo_wallet)) usdc_requirement
     = ([SignTypedData demo_domain demo_message],
        Inr (to_base64 (json_text (payloadObj usdc_requirement ''0xSIGNATURE'' demo_message)))) \<and>
   Date_now_1 (demo_world ''NO'') div 1000 = 1700000000 \<and>
   Date_now_2 (demo_world ''NO'') div 1000 = 1700000000 \<and>
   validAfter demo_message = 1700000000 - 60 \<and> validBefore demo_message = 1700000000 + 3600 \<and>
   payload_field (payloadObj usdc_requirement ''0xSIGNATURE'' demo_message) ''validAfter''
     = Inr (JStr (show_int (1700000000 - 60))) \<and>
   payload_field (payloadObj usdc_requirement ''0xSIGNATURE'' demo_message) ''validBefore''
     = Inr (JStr (show_int (1700000000 + 3600))) \<and>
   validBefore demo_message - validAfter demo_message = 3660 \<and>
   validAfter demo_message < 1700000000 \<and> 1700000000 \<le> validBefore demo_message"
proof -
  have t: "Date_now_1 (demo_world ''NO'') div 1000 = 1700000000"
          "Date_now_2 (demo_world ''NO'') div 1000 = 1700000000"
    by (simp_all add: demo_world_def)
  from signPayment_window[OF demo_signPayment, of "''NO''"] obtain w d m sg where
    h: "[SignTypedData demo_domain demo_message] = [SignTypedData d m]"
       "validAfter m = Date_now_1 (demo_world ''NO'') div 1000 - 60"
       "validBefore m = Date_now_2 (demo_world ''NO'') div 1000 + 3600"
       "payload_field (payloadObj usdc_requirement sg m) ''validAfter''
              = Inr (JStr (show_int (Date_now_1 (demo_world ''NO'') div 1000 - 60)))"
       "payload_field (payloadObj usdc_requirement sg m) ''validBefore''
              = Inr (JStr (show_int (Date_now_2 (demo_world ''NO'') div 1000 + 3600)))"
       "signTypedData demo_platform w d m = Some sg"
    by blast
  have m: "m = demo_message" using h(1) by simp
  have sg: "sg = ''0xSIGNATURE''" using h(6) by (simp add: demo_platform_def)
  show ?thesis
    using demo_signPayment[of "''NO''"] t h(2-5) unfolding m sg by simp
qed

subsection \<open>The description given to the judge\<close>

lemma extract_accepts:
  "extractRequirements demo_platform (error_details terms_accepts) = ([], Inr terms_accepts)"
  by (simp add: extractRequirements_def strategyA_def strategyB_def strategyC_def payment_header_def
        headers_get_def opt_prop_def bindE_def error_details_def terms_accepts_def)




subsection \<open>Serialisation is injective\<close>

lemma split_digits:
  fixes p q p' q' k :: nat
  assumes "q < k" "q' < k" "p * k + q = p' * k + q'"
  shows "p = p' \<and> q = q'"
proof -
  have "(p * k + q) div k = p" "(p * k + q) mod k = q" using assms(1) by simp_all
  moreover have "(p' * k + q') div k = p'" "(p' * k + q') mod k = q'" using assms(2) by simp_all
  ultimately show ?thesis using assms(3) by simp
qed

lemma b64_char_code:
  "n < 64 \<Longrightarrow> (of_char (b64_char n) :: nat) =
     (if n < 26 then 65 + n else if n < 52 then 71 + n else if n < 62 then n - 4
      else if n = 62 then 43 else 47)"
  by (simp add: b64_char_def)

lemma b64_char_inj: "m < 64 \<Longrightarrow> n < 64 \<Longrightarrow> b64_char m = b64_char n \<Longrightarrow> m = n"
proof -
  assume m: "m < 64" and n: "n < 64" and e: "b64_char m = b64_char n"
  then have "(of_char (b64_char m) :: nat) = of_char (b64_char n)" by simp
  then show "m = n"
    unfolding b64_char_code[OF m] b64_char_code[OF n]
    using m n by (auto split: if_splits)
qed

lemma b64_char_not_pad: "n < 64 \<Longrightarrow> b64_char n \<noteq> CHR ''=''"
proof
  assume n: "n < 64" and e: "b64_char n = CHR ''=''"
  then have "(of_char (b64_char n) :: nat) = 61" by simp
  then show False
    unfolding b64_char_code[OF n] by (auto split: if_splits)
qed

lemma b64_index_bounds:
  fixes a b :: nat
  assumes "b < 256"
  shows "a mod 4 * 16 + b div 16 < 64" and "a mod 16 * 4 + b div 64 < 64"
    and "b div 4 < 64" and "b mod 64 < 64" and "a mod 4 * 16 < 64" and "a mod 16 * 4 < 64"
proof -
  have "a mod 4 < 4" "a mod 16 < 16" by simp_all
  moreover have "b div 16 < 16" "b div 64 < 4" "b div 4 < 64" using assms by simp_all
  ultimately show "a mod 4 * 16 + b div 16 < 64" "a mod 16 * 4 + b div 64 < 64"
    "b div 4 < 64" "b mod 64 < 64" "a mod 4 * 16 < 64" "a mod 16 * 4 < 64"
    by simp_all
qed

lemma base64_first:
  assumes "a < 256" "a' < 256"
    and "b64_char (a div 4) = b64_char (a' div 4)"
    and "a mod 4 = a' mod 4"
  shows "a = a'"
proof -
  have "a div 4 = a' div 4"
    by (rule b64_char_inj[OF b64_index_bounds(3)[OF assms(1)] b64_index_bounds(3)[OF assms(2)] assms(3)])
  with assms(4) show ?thesis by (metis div_mult_mod_eq)
qed

lemma base64_second:
  assumes "b < 256" "b' < 256"
    and "b64_char ((a mod 4) * 16 + b div 16) = b64_char ((a' mod 4) * 16 + b' div 16)"
  shows "a mod 4 = a' mod 4 \<and> b div 16 = b' div 16"
proof -
  have e: "(a mod 4) * 16 + b div 16 = (a' mod 4) * 16 + b' div 16"
    by (rule b64_char_inj[OF b64_index_bounds(1)[OF assms(1)] b64_index_bounds(1)[OF assms(2)] assms(3)])
  have "b div 16 < 16" "b' div 16 < 16" using assms(1,2) by simp_all
  then show ?thesis using split_digits[OF _ _ e] by simp
qed

lemma base64_third:
  assumes "c < 256" "c' < 256"
    and "b64_char ((b mod 16) * 4 + c div 64) = b64_char ((b' mod 16) * 4 + c' div 64)"
  shows "b mod 16 = b' mod 16 \<and> c div 64 = c' div 64"
proof -
  have e: "(b mod 16) * 4 + c div 64 = (b' mod 16) * 4 + c' div 64"
    by (rule b64_char_inj[OF b64_index_bounds(2)[OF assms(1)] b64_index_bounds(2)[OF assms(2)] assms(3)])
  have "c div 64 < 4" "c' div 64 < 4" using assms(1,2) by simp_all
  then show ?thesis using split_digits[OF _ _ e] by simp
qed

lemma base64_fourth:
  assumes "c < 256" "c' < 256" and "b64_char (c mod 64) = b64_char (c' mod 64)" and "c div 64 = c' div 64"
  shows "c = c'"
proof -
  have "c mod 64 = c' mod 64"
    by (rule b64_char_inj[OF b64_index_bounds(4)[OF assms(1)] b64_index_bounds(4)[OF assms(2)] assms(3)])
  with assms(4) show ?thesis by (metis div_mult_mod_eq)
qed

lemma base64_quad:
  assumes "a < 256" "b < 256" "c < 256" "a' < 256" "b' < 256" "c' < 256"
    and "b64_char (a div 4) = b64_char (a' div 4)"
    and "b64_char ((a mod 4) * 16 + b div 16) = b64_char ((a' mod 4) * 16 + b' div 16)"
    and "b64_char ((b mod 16) * 4 + c div 64) = b64_char ((b' mod 16) * 4 + c' div 64)"
    and "b64_char (c mod 64) = b64_char (c' mod 64)"
  shows "a = a' \<and> b = b' \<and> c = c'"
proof -
  from base64_second[OF assms(2,5,8)] have 2: "a mod 4 = a' mod 4" "b div 16 = b' div 16" by simp_all
  from base64_third[OF assms(3,6,9)] have 3: "b mod 16 = b' mod 16" "c div 64 = c' div 64" by simp_all
  have "a = a'" by (rule base64_first[OF assms(1,4,7) 2(1)])
  moreover have "b = b'" using 2(2) 3(1) by (metis div_mult_mod_eq)
  moreover have "c = c'" by (rule base64_fourth[OF assms(3,6,10) 3(2)])
  ultimately show ?thesis by simp
qed


text \<open>The base64 text determines the bytes.\<close>

lemma base64_encode_inj:
  "\<forall>x\<in>set xs. x < 256 \<Longrightarrow> \<forall>y\<in>set ys. y < 256 \<Longrightarrow> base64_encode xs = base64_encode ys \<Longrightarrow> xs = ys"
proof (induction xs arbitrary: ys rule: base64_encode.induct)
  case 1
  then show ?case by (metis base64_encode_Nil)
next
  case (2 a)
  show ?case
  proof (cases ys rule: base64_encode.cases)
    case 1
    with 2 show ?thesis by simp
  next
    case (2 a')
    with "2.prems" have e: "b64_char (a div 4) = b64_char (a' div 4)"
      "b64_char (a mod 4 * 16) = b64_char (a' mod 4 * 16)" and lt: "a < 256" "a' < 256"
      by simp_all
    have "a mod 4 * 16 = a' mod 4 * 16"
      by (rule b64_char_inj[OF b64_index_bounds(5)[OF lt(1)] b64_index_bounds(5)[OF lt(2)] e(2)])
    then have "a mod 4 = a' mod 4" by simp
    from base64_first[OF lt e(1) this] 2 show ?thesis by simp
  next
    case (3 a' b')
    with "2.prems" have "b64_char (b' mod 16 * 4) = CHR ''=''" by simp
    moreover have "b' mod 16 * 4 < 64" using b64_index_bounds(6)[of 0 b'] by simp
    ultimately show ?thesis using b64_char_not_pad by blast
  next
    case (4 a' b' c' rest')
    with "2.prems" have "b64_char (b' mod 16 * 4 + c' div 64) = CHR ''=''" and "c' < 256" by simp_all
    then show ?thesis using b64_char_not_pad b64_index_bounds(2)[of c' b'] by metis
  qed
next
  case (3 a b)
  show ?case
  proof (cases ys rule: base64_encode.cases)
    case 1
    with 3 show ?thesis by simp
  next
    case (2 a')
    with "3.prems" have "b64_char (b mod 16 * 4) = CHR ''=''" by simp
    moreover have "b mod 16 * 4 < 64" using b64_index_bounds(6)[of 0 b] by simp
    ultimately show ?thesis using b64_char_not_pad by blast
  next
    case (3 a' b')
    with "3.prems" have e: "b64_char (a div 4) = b64_char (a' div 4)"
      "b64_char (a mod 4 * 16 + b div 16) = b64_char (a' mod 4 * 16 + b' div 16)"
      "b64_char (b mod 16 * 4) = b64_char (b' mod 16 * 4)"
      and lt: "a < 256" "a' < 256" "b < 256" "b' < 256"
      by simp_all
    from base64_second[OF lt(3,4) e(2)] have s: "a mod 4 = a' mod 4" "b div 16 = b' div 16" by simp_all
    have "b mod 16 * 4 = b' mod 16 * 4"
      by (rule b64_char_inj[OF b64_index_bounds(6)[OF lt(3)] b64_index_bounds(6)[OF lt(4)] e(3)])
    then have "b mod 16 = b' mod 16" by simp
    with s(2) have "b = b'" by (metis div_mult_mod_eq)
    moreover have "a = a'" by (rule base64_first[OF lt(1,2) e(1) s(1)])
    ultimately show ?thesis using 3 by simp
  next
    case (4 a' b' c' rest')
    with "3.prems" have "b64_char (c' mod 64) = CHR ''=''" and "c' < 256" by simp_all
    then show ?thesis using b64_char_not_pad b64_index_bounds(4)[of c'] by metis
  qed
next
  case (4 a b c rest)
  show ?case
  proof (cases ys rule: base64_encode.cases)
    case 1
    with 4 show ?thesis by simp
  next
    case (2 a')
    with "4.prems" have "b64_char (b mod 16 * 4 + c div 64) = CHR ''=''" and "c < 256" by simp_all
    then show ?thesis using b64_char_not_pad b64_index_bounds(2)[of c b] by metis
  next
    case (3 a' b')
    with "4.prems" have "b64_char (c mod 64) = CHR ''=''" and "c < 256" by simp_all
    then show ?thesis using b64_char_not_pad b64_index_bounds(4)[of c] by metis
  next
    case (4 a' b' c' rest')
    with "4.prems" have e: "b64_char (a div 4) = b64_char (a' div 4)"
      "b64_char (a mod 4 * 16 + b div 16) = b64_char (a' mod 4 * 16 + b' div 16)"
      "b64_char (b mod 16 * 4 + c div 64) = b64_char (b' mod 16 * 4 + c' div 64)"
      "b64_char (c mod 64) = b64_char (c' mod 64)"
      "base64_encode rest = base64_encode rest'"
      and lt: "a < 256" "b < 256" "c < 256" "a' < 256" "b' < 256" "c' < 256"
      and r: "\<forall>x\<in>set rest. x < 256" "\<forall>y\<in>set rest'. y < 256"
      by simp_all
    from base64_quad[OF lt e(1-4)] have "a = a' \<and> b = b' \<and> c = c'" .
    moreover have "rest = rest'" by (rule "4.IH"[OF r e(5)])
    ultimately show ?thesis using 4 by simp
  qed
qed

lemma to_base64_inj: "to_base64 s = to_base64 t \<Longrightarrow> s = t"
proof -
  assume e: "to_base64 s = to_base64 t"
  have "\<And>c :: char. (of_char c :: nat) < 256"
    by (metis of_char_mod_256 mod_less_divisor zero_less_numeral)
  then have "map of_char s = (map of_char t :: nat list)"
    using e by (intro base64_encode_inj) (auto simp: to_base64_def)
  then show "s = t"
    by (simp add: inj_map_eq_map[OF inj_of_char] )
qed

lemma hex_char_code:
  "d < 16 \<Longrightarrow> (of_char (hex_char d) :: nat) = (if d < 10 then 48 + d else 87 + d)"
  by (simp add: hex_char_def)

lemma hex_char_inj: "m < 16 \<Longrightarrow> n < 16 \<Longrightarrow> hex_char m = hex_char n \<Longrightarrow> m = n"
proof -
  assume m: "m < 16" and n: "n < 16" and e: "hex_char m = hex_char n"
  then have "(of_char (hex_char m) :: nat) = of_char (hex_char n)" by simp
  then show "m = n"
    unfolding hex_char_code[OF m] hex_char_code[OF n]
    using m n by (auto split: if_splits)
qed

lemma hex_byte_inj: "hex_byte a = hex_byte b \<Longrightarrow> a = b"
proof -
  assume e: "hex_byte a = hex_byte b"
  have lt: "unat a < 256" "unat b < 256"
    using unsigned_less[of a, where 'a = nat] unsigned_less[of b, where 'a = nat] by simp_all
  then have d: "unat a div 16 < 16" "unat b div 16 < 16" by simp_all
  have m: "unat a mod 16 < 16" "unat b mod 16 < 16" by simp_all
  from e have "hex_char (unat a div 16) = hex_char (unat b div 16)"
    "hex_char (unat a mod 16) = hex_char (unat b mod 16)"
    by (simp_all add: hex_byte_def)
  then have "unat a div 16 = unat b div 16" "unat a mod 16 = unat b mod 16"
    using hex_char_inj d m by blast+
  then have "unat a = unat b" by (metis div_mult_mod_eq)
  then show "a = b" by (simp add: word_unat_eq_iff)
qed

lemma hex_bytes_inj: "concat (map hex_byte xs) = concat (map hex_byte ys) \<Longrightarrow> xs = ys"
proof (induction xs arbitrary: ys)
  case Nil
  then show ?case by (cases ys) (simp_all add: hex_byte_def)
next
  case (Cons x xs)
  then show ?case
  proof (cases ys)
    case Nil
    with Cons.prems show ?thesis by (simp add: hex_byte_def)
  next
    case (Cons y ys')
    with Cons.prems have "hex_byte x @ concat (map hex_byte xs) = hex_byte y @ concat (map hex_byte ys')"
      by simp
    moreover have "length (hex_byte x) = length (hex_byte y)" by (simp add: hex_byte_def)
    ultimately have "hex_byte x = hex_byte y" "concat (map hex_byte xs) = concat (map hex_byte ys')"
      by simp_all
    with Cons.IH Cons show ?thesis by (simp add: hex_byte_inj)
  qed
qed

lemma hexlify_inj: "hexlify xs = hexlify ys \<Longrightarrow> xs = ys"
  by (simp add: hexlify_def hex_bytes_inj)

lemma length_hexlify: "length (hexlify xs) = 2 + 2 * length xs"
  by (induction xs) (simp_all add: hexlify_def hex_byte_def)


lemma join_comma_snoc: "\<exists>p. join_comma (xs @ [x]) = p @ x"
proof (induction xs rule: join_comma.induct)
  case 1
  show ?case by simp
next
  case (2 y)
  show ?case by simp
next
  case (3 y z zs)
  then obtain p where "join_comma ((z # zs) @ [x]) = p @ x" by blast
  then have "join_comma ((y # z # zs) @ [x]) = (y @ CHR '','' # p) @ x" by simp
  then show ?case by blast
qed

lemma stringify_obj_last:
  assumes "JSON_stringify v = Some tv"
  shows "\<exists>p. JSON_stringify (JObj (ps @ [(k, v)])) = Some (p @ tv @ ''}'')"
proof -
  let ?f = "\<lambda>kv. case JSON_stringify (snd kv) of None \<Rightarrow> [] | Some t \<Rightarrow> [json_quote (fst kv) @ '':'' @ t]"
  have "concat (map ?f (ps @ [(k, v)])) = concat (map ?f ps) @ [json_quote k @ '':'' @ tv]"
    using assms by simp
  moreover obtain p where "join_comma (concat (map ?f ps) @ [json_quote k @ '':'' @ tv]) = p @ json_quote k @ '':'' @ tv"
    using join_comma_snoc by blast
  ultimately have "JSON_stringify (JObj (ps @ [(k, v)])) = Some ((''{'' @ p @ json_quote k @ '':'') @ tv @ ''}'')"
    by simp
  then show ?thesis by blast
qed

lemma hex_char_plain: "d < 16 \<Longrightarrow> json_escape (hex_char d) = [hex_char d]"
  using hex_char_code[of d] by (auto simp: json_escape_def Let_def split: if_splits)

lemma json_escape_hex_byte: "concat (map json_escape (hex_byte b)) = hex_byte b"
proof -
  have "unat b mod 16 < 16" by simp
  moreover have "unat b div 16 < 16"
    using unsigned_less[of b, where 'a = nat] by simp
  ultimately show ?thesis
    by (simp add: hex_byte_def hex_char_plain)
qed

lemma json_escape_text_plain:
  "CHR 0xED \<notin> set s \<Longrightarrow> json_escape_text s = concat (map json_escape s)"
  by (induction s rule: json_escape_text.induct) auto

lemma hex_char_not_lead: "d < 16 \<Longrightarrow> hex_char d \<noteq> CHR 0xED"
proof
  assume "d < 16" and "hex_char d = CHR 0xED"
  then have "(of_char (hex_char d) :: nat) = 237" by simp
  with hex_char_code[OF \<open>d < 16\<close>] \<open>d < 16\<close> show False by (simp split: if_splits)
qed

lemma hex_byte_plain: "CHR 0xED \<notin> set (hex_byte b)"
proof -
  have "unat b mod 16 < 16" by simp
  moreover have "unat b div 16 < 16"
    using unsigned_less[of b, where 'a = nat] by simp
  ultimately show ?thesis
    using hex_char_not_lead[of "unat b mod 16"] hex_char_not_lead[of "unat b div 16"]
    by (auto simp: hex_byte_def)
qed

lemma json_quote_hexlify: "json_quote (hexlify bs) = CHR 0x22 # hexlify bs @ [CHR 0x22]"
proof -
  have p: "CHR 0xED \<notin> set (hexlify bs)"
    using hex_byte_plain by (auto simp: hexlify_def)
  have "concat (map json_escape (concat (map hex_byte bs))) = concat (map hex_byte bs)"
    by (induction bs) (simp_all add: json_escape_hex_byte)
  then show ?thesis
    by (simp add: json_quote_def json_escape_text_plain[OF p]) (simp add: hexlify_def json_escape_def)
qed

lemma json_text_payloadObj:
  "\<exists>p. json_text (payloadObj r sg m) = p @ json_quote (nonce m) @ ''}}}''"
proof -
  obtain pa where a: "JSON_stringify (authorization m) = Some (pa @ json_quote (nonce m) @ ''}'')"
    using stringify_obj_last[of "JStr (nonce m)" "json_quote (nonce m)"
        "[(''from'', JStr (msg_from m)), (''to'', msg_to m), (''value'', JStr (show_int (msg_value m))),
          (''validAfter'', JStr (show_int (validAfter m))), (''validBefore'', JStr (show_int (validBefore m)))]"
        "''nonce''"]
    by (auto simp: authorization_def)
  obtain pp where p: "JSON_stringify (JObj [(''signature'', JStr sg), (''authorization'', authorization m)])
      = Some (pp @ (pa @ json_quote (nonce m) @ ''}'') @ ''}'')"
    using stringify_obj_last[OF a, of "[(''signature'', JStr sg)]" "''authorization''"] by auto
  obtain po where "JSON_stringify (payloadObj r sg m)
      = Some (po @ (pp @ (pa @ json_quote (nonce m) @ ''}'') @ ''}'') @ ''}'')"
    using stringify_obj_last[OF p, of "[(''x402Version'', JNum 2), (''accepted'', r)]" "''payload''"]
    by (auto simp: payloadObj_def)
  then have "json_text (payloadObj r sg m) = (po @ pp @ pa) @ json_quote (nonce m) @ ''}}}''"
    by (simp add: json_text_def)
  then show ?thesis by blast
qed

text \<open>
  Claim C9. Take one requirement and one set of tools (one key). Two calls of
  \<open>signPayment\<close> that both return an envelope and whose 32-byte draws differ sign
  authorizations with different nonces, and return different envelopes. Nothing else is
  assumed of the two calls: the clock readings and the signatures the wallet returns may
  be equal or not.
\<close>

theorem signPayment_nonce_distinct:
  assumes "signPayment P W1 T requirement = (ev1, Inr env1)"
      and "signPayment P W2 T requirement = (ev2, Inr env2)"
      and "length (randomBytes W1) = 32" and "length (randomBytes W2) = 32"
      and "randomBytes W1 \<noteq> randomBytes W2"
  shows "env1 \<noteq> env2 \<and>
         (\<exists>d1 m1 d2 m2. ev1 = [SignTypedData d1 m1] \<and> ev2 = [SignTypedData d2 m2] \<and>
            nonce m1 = hexlify (randomBytes W1) \<and> nonce m2 = hexlify (randomBytes W2) \<and>
            nonce m1 \<noteq> nonce m2)"
proof -
  from signPayment_success[OF assms(1)] obtain w1 d1 m1 sg1 where
    1: "tools_wallet T = Some w1" "signing_message P W1 w1 requirement = Inr m1"
       "ev1 = [SignTypedData d1 m1]" "env1 = to_base64 (json_text (payloadObj requirement sg1 m1))"
    by blast
  from signPayment_success[OF assms(2)] obtain w2 d2 m2 sg2 where
    2: "tools_wallet T = Some w2" "signing_message P W2 w2 requirement = Inr m2"
       "ev2 = [SignTypedData d2 m2]" "env2 = to_base64 (json_text (payloadObj requirement sg2 m2))"
    by blast
  have n1: "nonce m1 = hexlify (randomBytes W1)"
    using 1(2) by (auto simp: signing_message_def bindE_def split: sum.splits)
  have n2: "nonce m2 = hexlify (randomBytes W2)"
    using 2(2) by (auto simp: signing_message_def bindE_def split: sum.splits)
  have ne: "nonce m1 \<noteq> nonce m2"
    using assms(5) hexlify_inj n1 n2 by auto
  have len: "length (nonce m1) = length (nonce m2)"
    by (simp add: n1 n2 length_hexlify assms(3,4))
  obtain p1 where t1: "json_text (payloadObj requirement sg1 m1) = p1 @ json_quote (nonce m1) @ ''}}}''"
    using json_text_payloadObj by blast
  obtain p2 where t2: "json_text (payloadObj requirement sg2 m2) = p2 @ json_quote (nonce m2) @ ''}}}''"
    using json_text_payloadObj by blast
  have "env1 \<noteq> env2"
  proof
    assume "env1 = env2"
    then have "json_text (payloadObj requirement sg1 m1) = json_text (payloadObj requirement sg2 m2)"
      using 1(4) 2(4) to_base64_inj by blast
    then have "p1 @ (json_quote (nonce m1) @ ''}}}'') = p2 @ (json_quote (nonce m2) @ ''}}}'')"
      using t1 t2 by simp
    moreover have "length (json_quote (nonce m1) @ ''}}}'') = length (json_quote (nonce m2) @ ''}}}'')"
      using len by (simp add: n1 n2 json_quote_hexlify)
    ultimately have "json_quote (nonce m1) @ ''}}}'' = json_quote (nonce m2) @ ''}}}''"
      by simp
    then show False
      using ne by (simp add: n1 n2 json_quote_hexlify)
  qed
  with 1(3) 2(3) n1 n2 ne show ?thesis by blast
qed

lemma second_signPayment:
  "signPayment demo_platform second_world (demo_tools (Some demo_wallet)) usdc_requirement
     = ([SignTypedData demo_domain second_message],
        Inr (to_base64 (json_text (payloadObj usdc_requirement ''0xSIGNATURE'' second_message))))"
proof -
  have "signing_message demo_platform second_world demo_wallet usdc_requirement = Inr second_message"
    by (simp add: signing_message_def signing_amount_def bindE_def usdc_requirement_def demo_world_def
          second_world_def second_message_def demo_message_def demo_wallet_def ascii_trim_def is_ws_def
          parse_radix_def digit_of_def)
  then show ?thesis
    by (simp add: signPayment_def demo_tools_def thenT_def pureT_def
          demo_signing_domain envelope_payloadObj demo_platform_def)
qed

theorem signPayment_nonce_distinct_witness:
  "signPayment demo_platform (demo_world ''NO'') (demo_tools (Some demo_wallet)) usdc_requirement
     = ([SignTypedData demo_domain demo_message],
        Inr (to_base64 (json_text (payloadObj usdc_requirement ''0xSIGNATURE'' demo_message)))) \<and>
   signPayment demo_platform second_world (demo_tools (Some demo_wallet)) usdc_requirement
     = ([SignTypedData demo_domain second_message],
        Inr (to_base64 (json_text (payloadObj usdc_requirement ''0xSIGNATURE'' second_message)))) \<and>
   length (randomBytes (demo_world ''NO'')) = 32 \<and> length (randomBytes second_world) = 32 \<and>
   randomBytes (demo_world ''NO'') \<noteq> randomBytes second_world \<and>
   to_base64 (json_text (payloadObj usdc_requirement ''0xSIGNATURE'' demo_message))
     \<noteq> to_base64 (json_text (payloadObj usdc_requirement ''0xSIGNATURE'' second_message)) \<and>
   nonce demo_message \<noteq> nonce second_message"
proof -
  have l: "length (randomBytes (demo_world ''NO'')) = 32" "length (randomBytes second_world) = 32"
    by (simp_all add: demo_world_def second_world_def)
  have "randomBytes (demo_world ''NO'') ! 0 \<noteq> randomBytes second_world ! 0"
    by (simp add: demo_world_def second_world_def)
  then have ne: "randomBytes (demo_world ''NO'') \<noteq> randomBytes second_world"
    by auto
  from signPayment_nonce_distinct[OF demo_signPayment second_signPayment l ne]
  show ?thesis
    using demo_signPayment[of "''NO''"] second_signPayment l ne by auto
qed

subsection \<open>The reshaped retry result\<close>

lemma map_of_fold_update:
  "map_of (fold (\<lambda>kv. AList.update (fst kv) (f (snd kv))) ps al) k =
     (case map_of (rev ps) k of Some v \<Rightarrow> Some (f v) | None \<Rightarrow> map_of al k)"
proof (induction ps arbitrary: al)
  case Nil
  show ?case by simp
next
  case (Cons p ps)
  show ?case
    by (cases p) (auto simp: Cons.IH update_conv' map_add_def split: option.splits)
qed

lemma map_of_reshape:
  "map_of (reshape json) k =
     (case map_of (rev (spread json)) k of
        Some v \<Rightarrow> Some (Native v)
      | None \<Rightarrow> if k = ''response'' then Some (TextWrapper json) else None)"
  by (auto simp: reshape_def map_of_fold_update split: option.splits)

lemma map_of_rev_key: "k \<in> fst ` set ps \<Longrightarrow> \<exists>v. map_of (rev ps) k = Some v \<and> (k, v) \<in> set ps"
proof -
  assume "k \<in> fst ` set ps"
  then have "k \<in> fst ` set (rev ps)" by simp
  then obtain v where "map_of (rev ps) k = Some v"
    by (metis map_of_eq_None_iff not_Some_eq)
  moreover from this have "(k, v) \<in> set ps"
    using map_of_SomeD by fastforce
  ultimately show ?thesis by blast
qed

text \<open>
  The wrapper is there for every body, but its accessor is not total. A retry answered
  with the JSON text \<open>null\<close> succeeds and returns the wrapper alone; calling
  \<open>response.text()\<close> on that result raises a \<open>TypeError\<close>, where the empty string was
  expected.
\<close>

theorem text_accessor_throws_on_null_body:
  "snd (retry demo_platform null_body_world ''proof'' [JStr ''Hello''] (getApiDetails (tools keyed_handler)))
     = Inr (reshape JNull) \<and>
   spread JNull = [] \<and>
   reshape JNull = [(''response'', TextWrapper JNull)] \<and>
   response_text (reshape JNull) = Inl TypeError"
  by (simp add: retry_def Let_def null_body_world_def parse_null reshape_def spread_def
        response_text_def text_accessor_def candidate_text_def bindE_def)

text \<open>
  Claim C10, amended. A retry whose response is ok and whose body parses to \<open>json\<close>
  returns \<open>{ response: { text }, ...json }\<close>.
  \<^item> When \<open>json\<close> has no top-level field \<open>response\<close>, the result's \<open>response\<close> is the
    wrapper, and every top-level field of \<open>json\<close> is a field of the result with a value
    \<open>json\<close> gives it.
  \<^item> When moreover \<open>json\<close> is not null, the value \<open>t\<close> at
    \<open>candidates[0].content.parts[0].text\<close> can be read (possibly as undefined), and
    \<open>response.text()\<close> on the result returns \<open>t\<close> when \<open>t\<close> is truthy and the empty
    string otherwise.
  \<^item> When \<open>json\<close> is null, the result is the wrapper alone and \<open>response.text()\<close> raises
    a \<open>TypeError\<close>.
  \<^item> When \<open>json\<close> has a top-level field \<open>response\<close>, the spread overwrites the wrapper
    with the native value, and calling \<open>response.text()\<close> on the result raises a
    \<open>TypeError\<close>: the accessor is gone.
\<close>

theorem retry_reshape:
  "(fetch W (RetryRequest (snd api @ ''/v1beta/models/gemini-3-flash-preview:generateContent?key='' @ fst api)
              sg (retry_contents args)) = Some r \<and> ok r \<and> JSON_parse P (body r) = Some json
      \<longrightarrow> snd (retry P W sg args api) = Inr (reshape json))
 \<and> (''response'' \<notin> fst ` set (spread json) \<longrightarrow>
        map_of (reshape json) ''response'' = Some (TextWrapper json) \<and>
        (\<forall>k \<in> fst ` set (spread json).
           \<exists>v. (k, v) \<in> set (spread json) \<and> map_of (reshape json) k = Some (Native v)))
 \<and> (''response'' \<notin> fst ` set (spread json) \<and> \<not> nullish json \<longrightarrow>
        (\<exists>t. candidate_text json = Inr t \<and>
             response_text (reshape json) = Inr (if truthy t then t else JStr [])))
 \<and> (nullish json \<longrightarrow>
        reshape json = [(''response'', TextWrapper json)] \<and>
        response_text (reshape json) = Inl TypeError)
 \<and> (''response'' \<in> fst ` set (spread json) \<longrightarrow>
        (\<exists>v. (''response'', v) \<in> set (spread json) \<and>
             map_of (reshape json) ''response'' = Some (Native v)) \<and>
        response_text (reshape json) = Inl TypeError)"
proof (intro conjI impI ballI)
  assume "fetch W (RetryRequest (snd api @ ''/v1beta/models/gemini-3-flash-preview:generateContent?key='' @ fst api)
              sg (retry_contents args)) = Some r \<and> ok r \<and> JSON_parse P (body r) = Some json"
  then show "snd (retry P W sg args api) = Inr (reshape json)"
    by (simp add: retry_def Let_def)
next
  assume n: "''response'' \<notin> fst ` set (spread json)"
  then have "map_of (rev (spread json)) ''response'' = None"
    by (simp add: map_of_eq_None_iff)
  then show "map_of (reshape json) ''response'' = Some (TextWrapper json)"
    by (simp add: map_of_reshape)
next
  fix k
  assume "k \<in> fst ` set (spread json)"
  from map_of_rev_key[OF this] show "\<exists>v. (k, v) \<in> set (spread json) \<and> map_of (reshape json) k = Some (Native v)"
    by (auto simp: map_of_reshape)
next
  assume n: "''response'' \<notin> fst ` set (spread json) \<and> \<not> nullish json"
  then have "map_of (rev (spread json)) ''response'' = None"
    by (simp add: map_of_eq_None_iff)
  then have w: "response_text (reshape json) = text_accessor json"
    by (simp add: map_of_reshape response_text_def)
  from n obtain t where t: "candidate_text json = Inr t"
    using candidate_text_returns by blast
  then have "response_text (reshape json) = Inr (if truthy t then t else JStr [])"
    using w by (simp add: text_accessor_def bindE_def)
  with t show "\<exists>t. candidate_text json = Inr t \<and>
             response_text (reshape json) = Inr (if truthy t then t else JStr [])"
    by blast
next
  assume n: "nullish json"
  then show "reshape json = [(''response'', TextWrapper json)]"
    by (cases json) (simp_all add: reshape_def spread_def)
  from n show "response_text (reshape json) = Inl TypeError"
    by (cases json)
       (simp_all add: reshape_def spread_def response_text_def text_accessor_def
          candidate_text_def bindE_def)
next
  assume "''response'' \<in> fst ` set (spread json)"
  from map_of_rev_key[OF this] obtain v where
    v: "map_of (rev (spread json)) ''response'' = Some v" "(''response'', v) \<in> set (spread json)"
    by blast
  then show "\<exists>v. (''response'', v) \<in> set (spread json) \<and> map_of (reshape json) ''response'' = Some (Native v)"
    by (auto simp: map_of_reshape)
  from v show "response_text (reshape json) = Inl TypeError"
    by (simp add: response_text_def map_of_reshape)
qed

lemma parse_reply_hello:
  "JSON_parse demo_platform (json_text (candidates_reply ''hello'')) = Some (candidates_reply ''hello'')"
  by (simp add: demo_platform_def known_json_def json_text_def usdc_requirement_def candidates_reply_def
        terms_accepts_def terms_described_def json_quote_def json_escape_def)

theorem retry_reshape_witness:
  "snd (retry demo_platform (demo_world ''NO'') ''proof'' [JStr ''Hello''] (getApiDetails (tools keyed_handler)))
     = Inr (reshape (candidates_reply ''hello'')) \<and>
   map_of (reshape (candidates_reply ''hello'')) ''response'' = Some (TextWrapper (candidates_reply ''hello'')) \<and>
   response_text (reshape (candidates_reply ''hello'')) = Inr (JStr ''hello'') \<and>
   (\<exists>v. map_of (reshape (candidates_reply ''hello'')) ''candidates'' = Some (Native v)) \<and>
   response_text (reshape (JObj [])) = Inr (JStr []) \<and>
   response_text (reshape JNull) = Inl TypeError \<and>
   map_of (reshape native_response_json) ''response'' = Some (Native (JStr ''native'')) \<and>
   response_text (reshape native_response_json) = Inl TypeError"
proof -
  let ?api = "getApiDetails (tools keyed_handler)"
  let ?r = "\<lparr> ok = True, body = json_text (candidates_reply ''hello'') \<rparr>"
  have f: "fetch (demo_world ''NO'')
             (RetryRequest (snd ?api @ ''/v1beta/models/gemini-3-flash-preview:generateContent?key='' @ fst ?api)
                ''proof'' (retry_contents [JStr ''Hello''])) = Some ?r \<and> ok ?r \<and>
           JSON_parse demo_platform (body ?r) = Some (candidates_reply ''hello'')"
    by (simp add: demo_world_def parse_reply_hello)
  have k: "''response'' \<notin> fst ` set (spread (candidates_reply ''hello''))"
    by (simp add: spread_def candidates_reply_def)
  have kn: "''response'' \<notin> fst ` set (spread (candidates_reply ''hello'')) \<and>
            \<not> nullish (candidates_reply ''hello'')"
    by (simp add: spread_def candidates_reply_def)
  have kc: "''candidates'' \<in> fst ` set (spread (candidates_reply ''hello''))"
    by (simp add: spread_def candidates_reply_def)
  note a = retry_reshape[where W = "demo_world ''NO''" and api = ?api and sg = "''proof''" and args = "[JStr ''Hello'']"
      and r = ?r and P = demo_platform and json = "candidates_reply ''hello''"]
  note a1 = a[THEN conjunct1, THEN mp, OF f]
  note a2 = a[THEN conjunct2, THEN conjunct1, THEN mp, OF k]
  note a3 = a[THEN conjunct2, THEN conjunct2, THEN conjunct1, THEN mp, OF kn]
  have 3: "response_text (reshape (candidates_reply ''hello'')) = Inr (JStr ''hello'')"
    using a3 by (simp add: candidate_text_reply)
  have 4: "\<exists>v. map_of (reshape (candidates_reply ''hello'')) ''candidates'' = Some (Native v)"
    using a2[THEN conjunct2, THEN bspec, OF kc] by (elim exE conjE) (rule exI)
  have e: "''response'' \<notin> fst ` set (spread (JObj [])) \<and> \<not> nullish (JObj [])"
    by (simp add: spread_def)
  have ec: "candidate_text (JObj []) = Inr JUndefined"
    by (simp add: candidate_text_def bindE_def opt_first_def opt_prop_def)
  note b = retry_reshape[where json = "JObj []"]
  have 5: "response_text (reshape (JObj [])) = Inr (JStr [])"
    using b[THEN conjunct2, THEN conjunct2, THEN conjunct1, THEN mp, OF e]
    by (simp add: ec)
  have nn: "nullish JNull"
    by simp
  have z: "response_text (reshape JNull) = Inl TypeError"
    using retry_reshape[where json = JNull, THEN conjunct2, THEN conjunct2, THEN conjunct2, THEN conjunct1,
        THEN mp, OF nn, THEN conjunct2] .
  have n: "''response'' \<in> fst ` set (spread native_response_json)"
    by (simp add: spread_def native_response_json_def)
  note c = retry_reshape[where json = native_response_json, THEN conjunct2, THEN conjunct2, THEN conjunct2,
      THEN conjunct2, THEN mp, OF n]
  have u: "\<And>v. (''response'', v) \<in> set (spread native_response_json) \<Longrightarrow> v = JStr ''native''"
    by (simp add: spread_def native_response_json_def)
  from c[THEN conjunct1] obtain v where
    v: "(''response'', v) \<in> set (spread native_response_json)"
       "map_of (reshape native_response_json) ''response'' = Some (Native v)"
    by (elim exE conjE)
  have 6: "map_of (reshape native_response_json) ''response'' = Some (Native (JStr ''native''))"
    using v(2) u[OF v(1)] by simp
  show ?thesis
    using a1 a2[THEN conjunct1] 3 4 5 z 6 c[THEN conjunct2] by simp
qed

subsection \<open>The fast-track scenario, end to end\<close>

text \<open>
  A wrapped call fails with status 402 and a details entry carrying \<open>accepts\<close>; the
  handler has a key. The judge is skipped, the authorization is signed, the retry carries
  the envelope and the re-wrapped prompt, and the text accessor of the result returns the
  reply's text.
\<close>

lemma fast_track_scenario:
  "wrapped_method demo_platform (demo_world ''NO'') keyed_handler
     (Inl (error_details terms_accepts) :: jsval + jsval) [JStr ''Hello, Halo!'']
   = ([LogErrorCaught (JNum 402) (JStr ''quota exceeded''), LogDetected, LogAutoPay,
       SignTypedData demo_domain demo_message, LogRetry,
       Fetch (RetryRequest (endpoint (tools keyed_handler))
                (to_base64 (json_text (payloadObj usdc_requirement ''0xSIGNATURE'' demo_message)))
                (JObj [(''contents'', JArr [JObj [(''parts'', JArr [JObj [(''text'', JStr ''Hello, Halo!'')]])]])]))],
      Inr (Recovered (reshape (candidates_reply ''hello''))))
   \<and> response_text (reshape (candidates_reply ''hello'')) = Inr (JStr ''hello'')"
proof -
  have st: "caught_status (error_details terms_accepts) = Inr (JNum 402)"
           "get_prop (error_details terms_accepts) ''message'' = Inr (JStr ''quota exceeded'')"
    by (simp_all add: caught_status_def error_details_def opt_prop_def bindE_def)
  have a: "requirement_of terms_accepts = Inr usdc_requirement"
          "resource_of terms_accepts = Inr (JObj [])"
          "amountStr_of usdc_requirement = Inr (JStr ''1000000'')"
          "truthy terms_accepts"
    by (simp_all add: requirement_of_def resource_of_def amountStr_of_def terms_accepts_def
          usdc_requirement_def bindE_def)
  have t: "tools keyed_handler = demo_tools (Some demo_wallet)" "autoApprove keyed_handler"
    by (simp_all add: keyed_handler_def)
  have r: "retry demo_platform (demo_world ''NO'')
             (to_base64 (json_text (payloadObj usdc_requirement ''0xSIGNATURE'' demo_message)))
             [JStr ''Hello, Halo!''] (getApiDetails (demo_tools (Some demo_wallet)))
           = ([LogRetry,
               Fetch (RetryRequest (endpoint (demo_tools (Some demo_wallet)))
                (to_base64 (json_text (payloadObj usdc_requirement ''0xSIGNATURE'' demo_message)))
                (JObj [(''contents'', JArr [JObj [(''parts'', JArr [JObj [(''text'', JStr ''Hello, Halo!'')]])]])]))],
              Inr (reshape (candidates_reply ''hello'')))"
    by (simp add: retry_def Let_def getApiDetails_def endpoint_def retry_contents_def demo_world_def
          parse_reply_hello)
  have "autoRecover demo_platform (demo_world ''NO'') keyed_handler (error_details terms_accepts) [JStr ''Hello, Halo!'']
     = ([LogAutoPay, SignTypedData demo_domain demo_message, LogRetry,
       Fetch (RetryRequest (endpoint (tools keyed_handler))
                (to_base64 (json_text (payloadObj usdc_requirement ''0xSIGNATURE'' demo_message)))
                (JObj [(''contents'', JArr [JObj [(''parts'', JArr [JObj [(''text'', JStr ''Hello, Halo!'')]])]])]))],
      Inr (reshape (candidates_reply ''hello'')))"
    unfolding autoRecover_def extract_accepts
    by (simp add: a t thenT_def pureT_def approval_def demo_signPayment r)
  moreover have "is_payment_required (JNum 402) (JStr ''quota exceeded'') = Inr True"
    by (simp add: is_payment_required_def)
  ultimately have "wrapped_method demo_platform (demo_world ''NO'') keyed_handler
     (Inl (error_details terms_accepts) :: jsval + jsval) [JStr ''Hello, Halo!'']
   = ([LogErrorCaught (JNum 402) (JStr ''quota exceeded''), LogDetected, LogAutoPay,
       SignTypedData demo_domain demo_message, LogRetry,
       Fetch (RetryRequest (endpoint (tools keyed_handler))
                (to_base64 (json_text (payloadObj usdc_requirement ''0xSIGNATURE'' demo_message)))
                (JObj [(''contents'', JArr [JObj [(''parts'', JArr [JObj [(''text'', JStr ''Hello, Halo!'')]])]])]))],
      Inr (Recovered (reshape (candidates_reply ''hello''))))"
    by (simp add: wrapped_method_def st thenT_def pureT_def)
  moreover have "response_text (reshape (candidates_reply ''hello'')) = Inr (JStr ''hello'')"
  proof -
    have "map_of (rev (spread (candidates_reply ''hello''))) ''response'' = None"
      by (simp add: spread_def candidates_reply_def)
    then show ?thesis
      by (simp add: response_text_def map_of_reshape text_accessor_def candidate_text_reply bindE_def)
  qed
  ultimately show ?thesis by simp
qed

end
